theory Spec2Isabelle
  imports Complex_Main
begin

section \<open>Python values used by \<^verbatim>\<open>backend/server.py\<close>\<close>

text \<open>
  Strings are byte lists holding the UTF-8 encoding of the Python text, so that two Python
  strings are equal exactly when their models are. The accented letters of the messages and
  tier names are written out as their two UTF-8 bytes.
\<close>

definition a_acute :: string where "a_acute = [CHR 0xC3, CHR 0xA1]"
definition i_acute :: string where "i_acute = [CHR 0xC3, CHR 0xAD]"

definition Clasico :: string where "Clasico = ''Cl'' @ a_acute @ ''sico''"

text \<open>\<^verbatim>\<open>xs.index(x)\<close>: the first position of \<open>x\<close>; \<open>None\<close> where Python raises ValueError.\<close>

fun list_index :: "'a list \<Rightarrow> 'a \<Rightarrow> nat option" where
  "list_index [] x = None"
| "list_index (y # ys) x =
     (if y = x then Some 0 else map_option Suc (list_index ys x))"

section \<open>Exceptions and error responses\<close>

text \<open>
  The exceptions the handlers can meet: \<open>InvalidId s\<close> is raised by \<^verbatim>\<open>ObjectId(s)\<close>,
  \<open>ValueError x\<close> by \<^verbatim>\<open>cat_order.index(x)\<close>, \<open>IndexError\<close> by \<^verbatim>\<open>email[0]\<close> on the empty
  string, \<open>TypeError\<close> by subscripting \<^verbatim>\<open>None\<close>, \<open>OverflowError\<close> by a conversion of an
  integer to a float or a true division whose result is too large for a float,
  \<open>ZeroDivisionError\<close> by a division by zero. The detail of an \<^verbatim>\<open>HTTPException\<close> is either a
  fixed text or \<^verbatim>\<open>str(e)\<close> of a caught exception; an exception no handler catches is
  \<open>Unhandled\<close>.
\<close>

datatype exn =
    InvalidId string
  | ValueError string
  | IndexError
  | TypeError
  | OverflowError
  | ZeroDivisionError

datatype detail = Text string | Str exn

datatype failure = HTTPException nat detail | Unhandled exn

section \<open>Python floats\<close>

text \<open>
  A Python float is an IEEE 754 binary64 value: a finite double, kept as the rational
  number it denotes, an infinity with its sign (\<open>True\<close> for \<open>+inf\<close>), or NaN. The sign of a
  zero is not kept: the handlers never produce \<open>-0.0\<close> and read a stored float only by
  adding a positive number to it.

  Every operation returns the double nearest to the exact result, ties going to the even
  significand. \<open>exponent x\<close> is the binary exponent of \<open>x\<close>, the largest \<open>e\<close> from \<open>-1022\<close> to
  \<open>1023\<close> with \<open>2^e \<le> |x|\<close>, and \<open>-1022\<close> for the subnormal numbers and zero; the doubles of
  that exponent are the multiples of \<open>2^(e-52)\<close>. A rounded magnitude of \<open>2^1024\<close> or more
  overflows.
\<close>

datatype pyfloat = Finite rat | Infinity bool | NaN

fun exp_down :: "nat \<Rightarrow> rat \<Rightarrow> int" where
  "exp_down 0 x = - 1022"
| "exp_down (Suc n) x =
     (if 2 powi (int (Suc n) - 1022) \<le> \<bar>x\<bar> then int (Suc n) - 1022 else exp_down n x)"

definition exponent :: "rat \<Rightarrow> int" where
  "exponent x = exp_down 2045 x"

definition round_half_even :: "rat \<Rightarrow> int" where
  "round_half_even y =
     (let f = \<lfloor>y\<rfloor>; r = y - of_int f
      in if r < 1 / 2 then f else if 1 / 2 < r then f + 1 else if even f then f else f + 1)"

definition nearest :: "rat \<Rightarrow> rat" where
  "nearest x = of_int (round_half_even (x / 2 powi (exponent x - 52))) * 2 powi (exponent x - 52)"

definition round_double :: "rat \<Rightarrow> pyfloat" where
  "round_double x =
     (if 2 powi 1024 \<le> \<bar>nearest x\<bar> then Infinity (0 < x) else Finite (nearest x))"

text \<open>A float literal such as \<^verbatim>\<open>0.1\<close> or \<^verbatim>\<open>0.0\<close>: the double nearest to the decimal.\<close>

definition float_lit :: "rat \<Rightarrow> pyfloat" where
  "float_lit q = round_double q"

text \<open>\<^verbatim>\<open>x + y\<close> and \<^verbatim>\<open>x * y\<close> on floats; an overflow gives an infinity, not an exception.\<close>

fun float_add :: "pyfloat \<Rightarrow> pyfloat \<Rightarrow> pyfloat" where
  "float_add (Finite a) (Finite b) = round_double (a + b)"
| "float_add NaN y = NaN"
| "float_add x NaN = NaN"
| "float_add (Infinity s) (Infinity t) = (if s = t then Infinity s else NaN)"
| "float_add (Infinity s) (Finite b) = Infinity s"
| "float_add (Finite a) (Infinity t) = Infinity t"

fun float_mul :: "pyfloat \<Rightarrow> pyfloat \<Rightarrow> pyfloat" where
  "float_mul (Finite a) (Finite b) = round_double (a * b)"
| "float_mul NaN y = NaN"
| "float_mul x NaN = NaN"
| "float_mul (Infinity s) (Infinity t) = Infinity (s = t)"
| "float_mul (Infinity s) (Finite b) = (if b = 0 then NaN else Infinity (s = (0 < b)))"
| "float_mul (Finite a) (Infinity t) = (if a = 0 then NaN else Infinity (t = (0 < a)))"

text \<open>
  The conversion of an integer operand to a float, and \<^verbatim>\<open>a / b\<close> on integers: both round
  the exact value to the nearest double and raise \<^verbatim>\<open>OverflowError\<close> where that is too large.
\<close>

definition float_of_int :: "int \<Rightarrow> exn + pyfloat" where
  "float_of_int i =
     (case round_double (of_int i) of
        Infinity s \<Rightarrow> Inl OverflowError
      | y \<Rightarrow> Inr y)"

definition int_truediv :: "int \<Rightarrow> int \<Rightarrow> exn + pyfloat" where
  "int_truediv a b =
     (if b = 0 then Inl ZeroDivisionError
      else (case round_double (of_int a / of_int b) of
              Infinity s \<Rightarrow> Inl OverflowError
            | y \<Rightarrow> Inr y))"

text \<open>\<^verbatim>\<open>i * x\<close> and \<^verbatim>\<open>x * i\<close> with an integer \<open>i\<close> and a float \<open>x\<close>: the integer is converted first.\<close>

definition int_times_float :: "int \<Rightarrow> pyfloat \<Rightarrow> exn + pyfloat" where
  "int_times_float i x =
     (case float_of_int i of
        Inl e \<Rightarrow> Inl e
      | Inr y \<Rightarrow> Inr (float_mul y x))"

definition float_times_int :: "pyfloat \<Rightarrow> int \<Rightarrow> exn + pyfloat" where
  "float_times_int x i =
     (case float_of_int i of
        Inl e \<Rightarrow> Inl e
      | Inr y \<Rightarrow> Inr (float_mul x y))"

section \<open>Category logic\<close>

definition get_category_from_points :: "int \<Rightarrow> string" where
  "get_category_from_points points =
     (if points \<ge> 1000 then ''Black''
      else if points \<ge> 600 then ''Diamante''
      else if points \<ge> 300 then ''Oro''
      else if points \<ge> 100 then ''Plata''
      else Clasico)"

record NextCategory =
  name :: string
  pointsNeeded :: int
  currentPoints :: int
  totalPoints :: int
  progress :: pyfloat

definition thresholds :: "(int \<times> string) list" where
  "thresholds = [(100, ''Plata''), (300, ''Oro''), (600, ''Diamante''), (1000, ''Black'')]"

text \<open>
  The \<^verbatim>\<open>for threshold, category in thresholds\<close> loop, returning at the first unmet threshold.
  Of the entries of the returned dict only \<^verbatim>\<open>(points / threshold) * 100\<close> can raise.
\<close>

fun next_category_loop :: "(int \<times> string) list \<Rightarrow> int \<Rightarrow> exn + NextCategory option" where
  "next_category_loop [] points = Inr None"
| "next_category_loop ((threshold, category) # rest) points =
     (if points < threshold then
        (case int_truediv points threshold of
           Inl e \<Rightarrow> Inl e
         | Inr ratio \<Rightarrow>
             (case float_times_int ratio 100 of
                Inl e \<Rightarrow> Inl e
              | Inr percent \<Rightarrow>
                  Inr (Some \<lparr>name = category,
                             pointsNeeded = threshold - points,
                             currentPoints = points,
                             totalPoints = threshold,
                             progress = percent\<rparr>)))
      else next_category_loop rest points)"

definition get_next_category_info :: "int \<Rightarrow> exn + NextCategory option" where
  "get_next_category_info points = next_category_loop thresholds points"

definition get_category_requirements :: "string \<Rightarrow> int" where
  "get_category_requirements category =
     (case map_of [(Clasico, 0), (''Plata'', 100), (''Oro'', 300), (''Diamante'', 600),
                   (''Black'', 1000)] category of
        Some n \<Rightarrow> n
      | None \<Rightarrow> 0)"

text \<open>The tier ladder, the local \<^verbatim>\<open>cat_order\<close> of \<^verbatim>\<open>get_rewards\<close> and \<^verbatim>\<open>redeem_reward\<close>.\<close>

definition cat_order :: "string list" where
  "cat_order = [Clasico, ''Plata'', ''Oro'', ''Diamante'', ''Black'']"

section \<open>Models\<close>

type_synonym datetime = nat

record PointsHistoryItem =
  date :: datetime
  points :: int
  description :: string
  type :: string

text \<open>
  Every user document is written from \<^verbatim>\<open>User(...).dict()\<close>, which always carries
  \<^verbatim>\<open>recycledKg\<close> and \<^verbatim>\<open>pointsHistory\<close>; the defaults of \<^verbatim>\<open>user.get\<close> are therefore never taken.
\<close>

record User =
  studentId :: string
  name :: string
  email :: string
  password :: string
  avatar :: string
  points :: int
  category :: string
  pointsHistory :: "PointsHistoryItem list"
  recycledKg :: pyfloat
  createdAt :: datetime

record UserLogin =
  email :: string
  password :: string

record Container =
  name :: string
  location :: "(string \<times> int) list"
  status :: string
  address :: string
  lastMaintenance :: datetime
  type :: string

record Reward =
  title :: string
  description :: string
  pointsCost :: int
  category :: string
  available :: bool
  image :: string
  location :: string

record QRScan =
  userId :: string
  containerId :: string
  pointsEarned :: int
  timestamp :: datetime

record ScanQRRequest =
  userId :: string
  qrCode :: string

record RedeemRequest =
  userId :: string
  rewardId :: string

section \<open>Library functions and the nondeterminism of one request\<close>

text \<open>
  Functions of the libraries the handlers call, taken as parameters:
  \<open>ObjectId s\<close> is \<^verbatim>\<open>bson.ObjectId(s)\<close>, \<open>None\<close> when it raises \<^verbatim>\<open>InvalidId\<close>;
  \<open>str_oid\<close> is \<^verbatim>\<open>str\<close> on an identifier; \<open>str_title\<close> and \<open>str_upper\<close> are \<^verbatim>\<open>str.title\<close> and
  \<^verbatim>\<open>str.upper\<close>.
\<close>

record 'oid lib =
  ObjectId :: "string \<Rightarrow> 'oid option"
  str_oid :: "'oid \<Rightarrow> string"
  str_title :: "string \<Rightarrow> string"
  str_upper :: "string \<Rightarrow> string"

text \<open>
  What one request draws from outside: \<open>utcnow k\<close> is the value of the \<open>k\<close>-th call of
  \<^verbatim>\<open>datetime.utcnow()\<close>, \<open>inserted_id k\<close> the identifier the driver gives the \<open>k\<close>-th inserted
  document, \<open>entropy\<close> what the random generator consumes.
\<close>

record 'oid env =
  utcnow :: "nat \<Rightarrow> datetime"
  inserted_id :: "nat \<Rightarrow> 'oid"
  entropy :: nat

text \<open>\<^verbatim>\<open>random.randint(a, b)\<close>: an integer \<open>N\<close> with \<open>a \<le> N \<le> b\<close>, each one for some entropy.\<close>

definition randint :: "int \<Rightarrow> int \<Rightarrow> nat \<Rightarrow> int" where
  "randint a b r = a + int (r mod nat (b - a + 1))"

text \<open>Decimal rendering of an integer, as in \<^verbatim>\<open>f"ST{n}"\<close>.\<close>

definition digit_char :: "nat \<Rightarrow> char" where
  "digit_char d = char_of (48 + d)"

function str_nat :: "nat \<Rightarrow> string" where
  "str_nat n = (if n < 10 then [digit_char n] else str_nat (n div 10) @ [digit_char (n mod 10)])"
  by pat_completeness auto
termination
  by (relation "measure (\<lambda>n. n)") auto

declare str_nat.simps [simp del]

definition str_int :: "int \<Rightarrow> string" where
  "str_int i = (if i < 0 then ''-'' @ str_nat (nat (- i)) else str_nat (nat i))"

text \<open>
  \<^verbatim>\<open>s[0]\<close> on UTF-8 bytes: the first code point, that is the first byte and the continuation
  bytes (\<open>10xxxxxx\<close>) after it; \<open>None\<close> where Python raises IndexError.
\<close>

definition is_continuation :: "char \<Rightarrow> bool" where
  "is_continuation c = ((of_char c :: nat) div 64 = 2)"

fun first_char :: "string \<Rightarrow> string option" where
  "first_char [] = None"
| "first_char (c # cs) = Some (c # takeWhile is_continuation cs)"

text \<open>\<^verbatim>\<open>s.split("@")[0]\<close>: the text before the first \<open>@\<close>.\<close>

definition split_at_head :: "string \<Rightarrow> string" where
  "split_at_head s = takeWhile (\<lambda>c. c \<noteq> CHR ''@'') s"

section \<open>The document store\<close>

text \<open>
  A collection is the list of its documents in insertion order, each paired with its
  \<^verbatim>\<open>_id\<close>. \<^verbatim>\<open>find_one\<close> returns the first match, \<^verbatim>\<open>update_one\<close> changes the first match,
  \<^verbatim>\<open>insert_one\<close> appends.
\<close>

type_synonym ('oid, 'd) collection = "('oid \<times> 'd) list"

record 'oid database =
  users :: "('oid, User) collection"
  containers :: "('oid, Container) collection"
  rewards :: "('oid, Reward) collection"
  scans :: "('oid, QRScan) collection"

definition find_one :: "('oid \<times> 'd \<Rightarrow> bool) \<Rightarrow> ('oid, 'd) collection \<Rightarrow> ('oid \<times> 'd) option" where
  "find_one query coll = List.find query coll"

definition by_id :: "'oid \<Rightarrow> 'oid \<times> 'd \<Rightarrow> bool" where
  "by_id oid doc = (fst doc = oid)"

definition insert_one :: "'oid \<Rightarrow> 'd \<Rightarrow> ('oid, 'd) collection \<Rightarrow> ('oid, 'd) collection" where
  "insert_one oid doc coll = coll @ [(oid, doc)]"

fun update_one ::
  "('oid \<times> 'd \<Rightarrow> bool) \<Rightarrow> ('d \<Rightarrow> 'd) \<Rightarrow> ('oid, 'd) collection \<Rightarrow> ('oid, 'd) collection" where
  "update_one query upd [] = []"
| "update_one query upd (doc # coll) =
     (if query doc then (fst doc, upd (snd doc)) # coll
      else doc # update_one query upd coll)"

definition count_documents :: "('oid, 'd) collection \<Rightarrow> nat" where
  "count_documents coll = length coll"

text \<open>\<^verbatim>\<open>find(query).to_list(n)\<close>: the first \<open>n\<close> matching documents.\<close>

definition find_to_list ::
  "('oid \<times> 'd \<Rightarrow> bool) \<Rightarrow> nat \<Rightarrow> ('oid, 'd) collection \<Rightarrow> ('oid, 'd) collection" where
  "find_to_list query n coll = take n (filter query coll)"

section \<open>Rewards endpoints\<close>

text \<open>
  The Mongo query of \<^verbatim>\<open>get_rewards\<close> as a predicate on documents: \<open>{}\<close> matches everything,
  \<open>{"category": {"$in": cats}}\<close> the rewards whose category is in \<open>cats\<close>. An empty string is
  falsy, so \<^verbatim>\<open>if category:\<close> skips it like \<open>None\<close>.
\<close>

definition rewards_query :: "string option \<Rightarrow> 'oid \<times> Reward \<Rightarrow> bool" where
  "rewards_query category' =
     (case category' of
        None \<Rightarrow> (\<lambda>doc. True)
      | Some c \<Rightarrow>
          if c = [] then (\<lambda>doc. True)
          else (case list_index cat_order c of
                  Some idx \<Rightarrow> (\<lambda>doc. Reward.category (snd doc) \<in> set (take (idx + 1) cat_order))
                | None \<Rightarrow> (\<lambda>doc. True)))"

text \<open>Each returned item is the document with its \<^verbatim>\<open>_id\<close> rendered as a string.\<close>

definition get_rewards :: "'oid lib \<Rightarrow> string option \<Rightarrow> 'oid database \<Rightarrow> (string \<times> Reward) list" where
  "get_rewards lib category' db =
     map (\<lambda>r. (str_oid lib (fst r), snd r))
       (find_to_list (rewards_query category') 100 (rewards db))"

record RedeemResponse =
  success :: bool
  message :: string
  newPoints :: int
  newCategory :: string

definition redeem_reward ::
  "'oid lib \<Rightarrow> 'oid env \<Rightarrow> RedeemRequest \<Rightarrow> 'oid database
     \<Rightarrow> (failure + RedeemResponse) \<times> 'oid database" where
  "redeem_reward lib env request db =
     (case ObjectId lib (RedeemRequest.userId request) of
        None \<Rightarrow> (Inl (HTTPException 400 (Str (InvalidId (RedeemRequest.userId request)))), db)
      | Some uid \<Rightarrow>
     (case find_one (by_id uid) (users db) of
        None \<Rightarrow> (Inl (HTTPException 404 (Text ''Usuario no encontrado'')), db)
      | Some udoc \<Rightarrow>
     (case ObjectId lib (rewardId request) of
        None \<Rightarrow> (Inl (HTTPException 400 (Str (InvalidId (rewardId request)))), db)
      | Some rid \<Rightarrow>
     (case find_one (by_id rid) (rewards db) of
        None \<Rightarrow> (Inl (HTTPException 404 (Text ''Recompensa no encontrada'')), db)
      | Some rdoc \<Rightarrow>
     (let user = snd udoc; reward = snd rdoc in
      if User.points user < pointsCost reward then
        (Inl (HTTPException 400 (Text ''Puntos insuficientes'')), db)
      else
     (case list_index cat_order (User.category user) of
        None \<Rightarrow> (Inl (HTTPException 400 (Str (ValueError (User.category user)))), db)
      | Some user_cat_idx \<Rightarrow>
     (case list_index cat_order (Reward.category reward) of
        None \<Rightarrow> (Inl (HTTPException 400 (Str (ValueError (Reward.category reward)))), db)
      | Some reward_cat_idx \<Rightarrow>
      if user_cat_idx < reward_cat_idx then
        (Inl (HTTPException 400 (Text (''Categor'' @ i_acute @ ''a insuficiente''))), db)
      else
       (let new_points = User.points user - pointsCost reward;
            new_category = get_category_from_points new_points;
            history_item =
              \<lparr>PointsHistoryItem.date = utcnow env 0,
               PointsHistoryItem.points = - pointsCost reward,
               PointsHistoryItem.description = ''Canjeado: '' @ title reward,
               PointsHistoryItem.type = ''redeemed''\<rparr>
        in (Inr \<lparr>RedeemResponse.success = True,
                 RedeemResponse.message = ''Recompensa canjeada exitosamente'',
                 RedeemResponse.newPoints = new_points,
                 RedeemResponse.newCategory = new_category\<rparr>,
            db\<lparr>users :=
                 update_one (by_id uid)
                   (\<lambda>u. u\<lparr>User.points := new_points,
                           User.category := new_category,
                           User.pointsHistory := User.pointsHistory u @ [history_item]\<rparr>)
                   (users db)\<rparr>)))))))))"

section \<open>QR scan endpoint\<close>

record ScanResponse =
  success :: bool
  pointsEarned :: int
  newPoints :: int
  newCategory :: string
  containerName :: string
  kgRecycled :: pyfloat

text \<open>
  In \<^verbatim>\<open>scan_qr\<close> the product \<^verbatim>\<open>points_earned * 0.1\<close> is evaluated for \<^verbatim>\<open>new_kg\<close> and again for
  the response; both evaluations give the same value \<open>kg\<close>.

  The inner \<^verbatim>\<open>try\<close> of \<^verbatim>\<open>scan_qr\<close>: the lookup by \<^verbatim>\<open>_id\<close> when \<^verbatim>\<open>ObjectId(qr_data)\<close> returns, the
  lookup by name in the \<^verbatim>\<open>except\<close> branch when it raises.
\<close>

definition by_name :: "string \<Rightarrow> 'oid \<times> Container \<Rightarrow> bool" where
  "by_name n doc = (Container.name (snd doc) = n)"

definition resolve_container ::
  "'oid lib \<Rightarrow> string \<Rightarrow> 'oid database \<Rightarrow> ('oid \<times> Container) option" where
  "resolve_container lib qr_data db =
     (case ObjectId lib qr_data of
        Some cid \<Rightarrow> find_one (by_id cid) (containers db)
      | None \<Rightarrow> find_one (by_name qr_data) (containers db))"

definition scan_qr ::
  "'oid lib \<Rightarrow> 'oid env \<Rightarrow> ScanQRRequest \<Rightarrow> 'oid database
     \<Rightarrow> (failure + ScanResponse) \<times> 'oid database" where
  "scan_qr lib env request db =
     (case resolve_container lib (qrCode request) db of
        None \<Rightarrow> (Inl (HTTPException 404 (Text (''Contenedor no v'' @ a_acute @ ''lido''))), db)
      | Some cdoc \<Rightarrow>
     (let container = snd cdoc in
      if Container.status container \<noteq> ''operational'' then
        (Inl (HTTPException 400 (Text ''Contenedor en mantenimiento'')), db)
      else
     (case ObjectId lib (ScanQRRequest.userId request) of
        None \<Rightarrow> (Inl (HTTPException 400 (Str (InvalidId (ScanQRRequest.userId request)))), db)
      | Some uid \<Rightarrow>
     (case find_one (by_id uid) (users db) of
        None \<Rightarrow> (Inl (HTTPException 404 (Text ''Usuario no encontrado'')), db)
      | Some udoc \<Rightarrow>
       (let user = snd udoc;
            points_earned = randint 10 50 (entropy env);
            new_points = User.points user + points_earned;
            new_category = get_category_from_points new_points
        in
     (case int_times_float points_earned (float_lit (1 / 10)) of
        Inl e \<Rightarrow> (Inl (HTTPException 400 (Str e)), db)
      | Inr kg \<Rightarrow>
       (let new_kg = float_add (recycledKg user) kg;
            history_item =
              \<lparr>PointsHistoryItem.date = utcnow env 0,
               PointsHistoryItem.points = points_earned,
               PointsHistoryItem.description = ''Reciclaje en '' @ Container.name container,
               PointsHistoryItem.type = ''earned''\<rparr>;
            scan_record =
              \<lparr>QRScan.userId = ScanQRRequest.userId request,
               QRScan.containerId = str_oid lib (fst cdoc),
               QRScan.pointsEarned = points_earned,
               QRScan.timestamp = utcnow env 1\<rparr>
        in (Inr \<lparr>ScanResponse.success = True,
                 ScanResponse.pointsEarned = points_earned,
                 ScanResponse.newPoints = new_points,
                 ScanResponse.newCategory = new_category,
                 ScanResponse.containerName = Container.name container,
                 ScanResponse.kgRecycled = kg\<rparr>,
            db\<lparr>users :=
                 update_one (by_id uid)
                   (\<lambda>u. u\<lparr>User.points := new_points,
                           User.category := new_category,
                           User.recycledKg := new_kg,
                           User.pointsHistory := User.pointsHistory u @ [history_item]\<rparr>)
                   (users db),
               scans := insert_one (inserted_id env 0) scan_record (scans db)\<rparr>))))))))"

section \<open>Init data endpoint\<close>

record InitResponse =
  message :: string
  containers :: "nat option"
  rewards :: "nat option"

text \<open>
  The sample containers and rewards of \<^verbatim>\<open>init_data\<close>. Each \<^verbatim>\<open>Container(...)\<close> takes its
  \<^verbatim>\<open>lastMaintenance\<close> from its own call of \<^verbatim>\<open>datetime.utcnow()\<close>; each \<^verbatim>\<open>Reward(...)\<close> takes the
  default \<^verbatim>\<open>available = True\<close>.
\<close>

definition containers_data :: "'oid env \<Rightarrow> Container list" where
  "containers_data env =
     [\<lparr>Container.name = ''Contenedor A - Biblioteca'',
        Container.location = [(''x'', 30), (''y'', 40)],
        Container.status = ''operational'',
        Container.address = ''Edificio de Biblioteca, Piso 1'',
        Container.lastMaintenance = utcnow env 0,
        Container.type = ''mixed''\<rparr>,
      \<lparr>Container.name = ''Contenedor B - Cafeter'' @ [CHR 0xC3, CHR 0xAD] @ ''a'',
        Container.location = [(''x'', 60), (''y'', 30)],
        Container.status = ''operational'',
        Container.address = ''Cafeter'' @ [CHR 0xC3, CHR 0xAD] @ ''a Central'',
        Container.lastMaintenance = utcnow env 1,
        Container.type = ''plastic''\<rparr>,
      \<lparr>Container.name = ''Contenedor C - Laboratorios'',
        Container.location = [(''x'', 45), (''y'', 70)],
        Container.status = ''maintenance'',
        Container.address = ''Edificio de Laboratorios, Entrada Principal'',
        Container.lastMaintenance = utcnow env 2,
        Container.type = ''paper''\<rparr>,
      \<lparr>Container.name = ''Contenedor D - Gimnasio'',
        Container.location = [(''x'', 75), (''y'', 60)],
        Container.status = ''operational'',
        Container.address = ''Centro Deportivo'',
        Container.lastMaintenance = utcnow env 3,
        Container.type = ''mixed''\<rparr>,
      \<lparr>Container.name = ''Contenedor E - Estacionamiento'',
        Container.location = [(''x'', 20), (''y'', 20)],
        Container.status = ''operational'',
        Container.address = ''Estacionamiento Norte'',
        Container.lastMaintenance = utcnow env 4,
        Container.type = ''mixed''\<rparr>]"

definition rewards_data :: "Reward list" where
  "rewards_data =
     [\<lparr>Reward.title = ''Caf'' @ [CHR 0xC3, CHR 0xA9] @ '' Gratis'',
        Reward.description = ''1 caf'' @ [CHR 0xC3, CHR 0xA9] @ '' americano o capuchino gratis en la cafeter'' @ [CHR 0xC3, CHR 0xAD] @ ''a'',
        Reward.pointsCost = 50,
        Reward.category = Clasico,
        Reward.available = True,
        Reward.image = [CHR 0xE2, CHR 0x98, CHR 0x95],
        Reward.location = ''Cafet'' @ [CHR 0xC3, CHR 0xAD] @ ''n''\<rparr>,
      \<lparr>Reward.title = ''Descuento 10% Librer'' @ [CHR 0xC3, CHR 0xAD] @ ''a'',
        Reward.description = ''10% de descuento en cualquier producto de la librer'' @ [CHR 0xC3, CHR 0xAD] @ ''a'',
        Reward.pointsCost = 80,
        Reward.category = Clasico,
        Reward.available = True,
        Reward.image = [CHR 0xF0, CHR 0x9F, CHR 0x93, CHR 0x9A],
        Reward.location = ''Librer'' @ [CHR 0xC3, CHR 0xAD] @ ''a''\<rparr>,
      \<lparr>Reward.title = ''Snack Gratis'',
        Reward.description = ''Elige un snack gratis en la cafeter'' @ [CHR 0xC3, CHR 0xAD] @ ''a'',
        Reward.pointsCost = 30,
        Reward.category = Clasico,
        Reward.available = True,
        Reward.image = [CHR 0xF0, CHR 0x9F, CHR 0x8D, CHR 0xAA],
        Reward.location = ''Cafet'' @ [CHR 0xC3, CHR 0xAD] @ ''n''\<rparr>,
      \<lparr>Reward.title = ''Cuaderno Universitario'',
        Reward.description = ''Cuaderno de 100 hojas tama'' @ [CHR 0xC3, CHR 0xB1] @ ''o universitario'',
        Reward.pointsCost = 120,
        Reward.category = ''Plata'',
        Reward.available = True,
        Reward.image = [CHR 0xF0, CHR 0x9F, CHR 0x93, CHR 0x93],
        Reward.location = ''Librer'' @ [CHR 0xC3, CHR 0xAD] @ ''a''\<rparr>,
      \<lparr>Reward.title = ''Vale S/10 Cafeter'' @ [CHR 0xC3, CHR 0xAD] @ ''a'',
        Reward.description = ''Vale por S/10 para usar en la cafeter'' @ [CHR 0xC3, CHR 0xAD] @ ''a'',
        Reward.pointsCost = 150,
        Reward.category = ''Plata'',
        Reward.available = True,
        Reward.image = [CHR 0xF0, CHR 0x9F, CHR 0x8E, CHR 0xAB],
        Reward.location = ''Cafet'' @ [CHR 0xC3, CHR 0xAD] @ ''n''\<rparr>,
      \<lparr>Reward.title = ''Set de Lapiceros'',
        Reward.description = ''Set de 5 lapiceros de colores'',
        Reward.pointsCost = 100,
        Reward.category = ''Plata'',
        Reward.available = True,
        Reward.image = [CHR 0xF0, CHR 0x9F, CHR 0x96, CHR 0x8A, CHR 0xEF, CHR 0xB8, CHR 0x8F],
        Reward.location = ''Librer'' @ [CHR 0xC3, CHR 0xAD] @ ''a''\<rparr>,
      \<lparr>Reward.title = ''Vale S/20 Librer'' @ [CHR 0xC3, CHR 0xAD] @ ''a'',
        Reward.description = ''Vale por S/20 para usar en la librer'' @ [CHR 0xC3, CHR 0xAD] @ ''a'',
        Reward.pointsCost = 300,
        Reward.category = ''Oro'',
        Reward.available = True,
        Reward.image = [CHR 0xF0, CHR 0x9F, CHR 0x8E, CHR 0x81],
        Reward.location = ''Librer'' @ [CHR 0xC3, CHR 0xAD] @ ''a''\<rparr>,
      \<lparr>Reward.title = ''Mochila Ecol'' @ [CHR 0xC3, CHR 0xB3] @ ''gica'',
        Reward.description = ''Mochila de material reciclado con logo RISIB'',
        Reward.pointsCost = 400,
        Reward.category = ''Oro'',
        Reward.available = True,
        Reward.image = [CHR 0xF0, CHR 0x9F, CHR 0x8E, CHR 0x92],
        Reward.location = ''Tienda RISIB''\<rparr>,
      \<lparr>Reward.title = ''Almuerzo Gratis'',
        Reward.description = ''Men'' @ [CHR 0xC3, CHR 0xBA] @ '' completo gratis en la cafeter'' @ [CHR 0xC3, CHR 0xAD] @ ''a'',
        Reward.pointsCost = 250,
        Reward.category = ''Oro'',
        Reward.available = True,
        Reward.image = [CHR 0xF0, CHR 0x9F, CHR 0x8D, CHR 0xBD, CHR 0xEF, CHR 0xB8, CHR 0x8F],
        Reward.location = ''Cafet'' @ [CHR 0xC3, CHR 0xAD] @ ''n''\<rparr>,
      \<lparr>Reward.title = ''Vale S/50 Multiuso'',
        Reward.description = ''Vale por S/50 para usar en cafeter'' @ [CHR 0xC3, CHR 0xAD] @ ''a o librer'' @ [CHR 0xC3, CHR 0xAD] @ ''a'',
        Reward.pointsCost = 700,
        Reward.category = ''Diamante'',
        Reward.available = True,
        Reward.image = [CHR 0xF0, CHR 0x9F, CHR 0x92, CHR 0x8E],
        Reward.location = ''Multiuso''\<rparr>,
      \<lparr>Reward.title = ''Laptop Cooling Pad'',
        Reward.description = ''Base refrigerante para laptop'',
        Reward.pointsCost = 800,
        Reward.category = ''Diamante'',
        Reward.available = True,
        Reward.image = [CHR 0xF0, CHR 0x9F, CHR 0x92, CHR 0xBB],
        Reward.location = ''Tienda Tech''\<rparr>,
      \<lparr>Reward.title = ''Vale S/100 Premium'',
        Reward.description = ''Vale por S/100 para usar en cualquier establecimiento del campus'',
        Reward.pointsCost = 1200,
        Reward.category = ''Black'',
        Reward.available = True,
        Reward.image = [CHR 0xF0, CHR 0x9F, CHR 0x8F, CHR 0x86],
        Reward.location = ''Premium''\<rparr>,
      \<lparr>Reward.title = ''Tablet Ecol'' @ [CHR 0xC3, CHR 0xB3] @ ''gica'',
        Reward.description = ''Tablet para tomar notas digitales'',
        Reward.pointsCost = 1500,
        Reward.category = ''Black'',
        Reward.available = True,
        Reward.image = [CHR 0xF0, CHR 0x9F, CHR 0x93, CHR 0xB1],
        Reward.location = ''Tienda Tech''\<rparr>]"

text \<open>
  The two \<^verbatim>\<open>for ... insert_one\<close> loops: the documents are inserted in order, the \<open>k\<close>-th
  insertion of the request under \<open>inserted_id env k\<close>.
\<close>

fun insert_all ::
  "(nat \<Rightarrow> 'oid) \<Rightarrow> nat \<Rightarrow> 'd list \<Rightarrow> ('oid, 'd) collection \<Rightarrow> ('oid, 'd) collection" where
  "insert_all ids k [] coll = coll"
| "insert_all ids k (doc # docs) coll = insert_all ids (Suc k) docs (insert_one (ids k) doc coll)"

definition init_data :: "'oid env \<Rightarrow> 'oid database \<Rightarrow> InitResponse \<times> 'oid database" where
  "init_data env db =
     (let existing_containers = count_documents (database.containers db) in
      if existing_containers > 0 then
        (\<lparr>InitResponse.message = ''Datos ya inicializados'',
          InitResponse.containers = None,
          InitResponse.rewards = None\<rparr>, db)
      else
        (\<lparr>InitResponse.message = ''Datos inicializados correctamente'',
          InitResponse.containers = Some (length (containers_data env)),
          InitResponse.rewards = Some (length rewards_data)\<rparr>,
         db\<lparr>database.containers :=
              insert_all (inserted_id env) 0 (containers_data env) (database.containers db),
            database.rewards :=
              insert_all (inserted_id env) (length (containers_data env)) rewards_data
                (database.rewards db)\<rparr>))"

section \<open>Auth endpoints\<close>

record AuthUser =
  id :: string
  studentId :: string
  name :: string
  email :: string
  avatar :: string
  points :: int
  category :: string

record AuthResponse =
  success :: bool
  user :: AuthUser
  token :: string

text \<open>
  The \<^verbatim>\<open>User(...)\<close> expression of \<^verbatim>\<open>login\<close> and \<^verbatim>\<open>register\<close>; \<^verbatim>\<open>points\<close>, \<^verbatim>\<open>category\<close>,
  \<^verbatim>\<open>pointsHistory\<close>, \<^verbatim>\<open>recycledKg\<close> and \<^verbatim>\<open>createdAt\<close> take the defaults of the model.
\<close>

definition new_user :: "'oid lib \<Rightarrow> 'oid env \<Rightarrow> UserLogin \<Rightarrow> exn + User" where
  "new_user lib env credentials =
     (case first_char (UserLogin.email credentials) of
        None \<Rightarrow> Inl IndexError
      | Some c \<Rightarrow>
          Inr \<lparr>User.studentId = ''ST'' @ str_int (randint 10000 99999 (entropy env)),
               User.name = str_title lib (split_at_head (UserLogin.email credentials)),
               User.email = UserLogin.email credentials,
               User.password = UserLogin.password credentials,
               User.avatar = str_upper lib c,
               User.points = 0,
               User.category = Clasico,
               User.pointsHistory = [],
               User.recycledKg = float_lit 0,
               User.createdAt = utcnow env 0\<rparr>)"

text \<open>The response built from the document that \<^verbatim>\<open>find_one\<close> returned.\<close>

definition auth_response :: "'oid lib \<Rightarrow> ('oid \<times> User) option \<Rightarrow> failure + AuthResponse" where
  "auth_response lib found =
     (case found of
        None \<Rightarrow> Inl (Unhandled TypeError)
      | Some doc \<Rightarrow>
          Inr \<lparr>AuthResponse.success = True,
               AuthResponse.user =
                 \<lparr>AuthUser.id = str_oid lib (fst doc),
                  AuthUser.studentId = User.studentId (snd doc),
                  AuthUser.name = User.name (snd doc),
                  AuthUser.email = User.email (snd doc),
                  AuthUser.avatar = User.avatar (snd doc),
                  AuthUser.points = User.points (snd doc),
                  AuthUser.category = User.category (snd doc)\<rparr>,
               AuthResponse.token = ''mock_token_123''\<rparr>)"

definition by_email :: "string \<Rightarrow> 'oid \<times> User \<Rightarrow> bool" where
  "by_email e doc = (User.email (snd doc) = e)"

definition login ::
  "'oid lib \<Rightarrow> 'oid env \<Rightarrow> UserLogin \<Rightarrow> 'oid database
     \<Rightarrow> (failure + AuthResponse) \<times> 'oid database" where
  "login lib env credentials db =
     (case find_one (by_email (UserLogin.email credentials)) (users db) of
        Some doc \<Rightarrow> (auth_response lib (Some doc), db)
      | None \<Rightarrow>
          (case new_user lib env credentials of
             Inl e \<Rightarrow> (Inl (Unhandled e), db)
           | Inr nu \<Rightarrow>
               (let db' = db\<lparr>users := insert_one (inserted_id env 0) nu (users db)\<rparr>
                in (auth_response lib (find_one (by_id (inserted_id env 0)) (users db')), db'))))"

definition register ::
  "'oid lib \<Rightarrow> 'oid env \<Rightarrow> UserLogin \<Rightarrow> 'oid database
     \<Rightarrow> (failure + AuthResponse) \<times> 'oid database" where
  "register lib env credentials db =
     (case find_one (by_email (UserLogin.email credentials)) (users db) of
        Some existing \<Rightarrow> (Inl (HTTPException 400 (Text ''Usuario ya existe'')), db)
      | None \<Rightarrow>
          (case new_user lib env credentials of
             Inl e \<Rightarrow> (Inl (Unhandled e), db)
           | Inr nu \<Rightarrow>
               (let db' = db\<lparr>users := insert_one (inserted_id env 0) nu (users db)\<rparr>
                in (auth_response lib (find_one (by_id (inserted_id env 0)) (users db')), db'))))"

section \<open>Reachable states\<close>

definition empty_db :: "'oid database" where
  "empty_db = \<lparr>users = [], database.containers = [], database.rewards = [], scans = []\<rparr>"

text \<open>
  The states the API can produce from the empty store: the five handlers that write
  (the \<^verbatim>\<open>GET\<close> handlers write nothing), each with any request and any outcome of the clock,
  the identifier generator and the random generator.
\<close>

inductive reachable :: "'oid lib \<Rightarrow> 'oid database \<Rightarrow> bool" for lib :: "'oid lib" where
  reachable_empty: "reachable lib empty_db"
| reachable_login: "reachable lib db \<Longrightarrow> reachable lib (snd (login lib env credentials db))"
| reachable_register: "reachable lib db \<Longrightarrow> reachable lib (snd (register lib env credentials db))"
| reachable_redeem: "reachable lib db \<Longrightarrow> reachable lib (snd (redeem_reward lib env request db))"
| reachable_scan: "reachable lib db \<Longrightarrow> reachable lib (snd (scan_qr lib env scan db))"
| reachable_init: "reachable lib db \<Longrightarrow> reachable lib (snd (init_data env db))"

text \<open>The invariant of the data model: the stored category is the function of the stored points.\<close>

definition category_consistent :: "'oid database \<Rightarrow> bool" where
  "category_consistent db =
     list_all (\<lambda>doc. User.category (snd doc) = get_category_from_points (User.points (snd doc)))
       (users db)"

text \<open>The range of the \<^verbatim>\<open>points\<close> field in the data model: an integer that is never negative.\<close>

definition points_nonneg :: "'oid database \<Rightarrow> bool" where
  "points_nonneg db = list_all (\<lambda>doc. 0 \<le> User.points (snd doc)) (users db)"

section \<open>The preconditions of redemption, in the words of the specification\<close>

text \<open>
  The user exists; the reward exists; \<open>user.points \<ge> reward.pointsCost\<close>; the index of
  \<open>user.category\<close> in the tier ladder is at least the index of \<open>reward.category\<close>.
\<close>

definition redeem_preconditions :: "'oid lib \<Rightarrow> RedeemRequest \<Rightarrow> 'oid database \<Rightarrow> bool" where
  "redeem_preconditions lib request db =
     (case ObjectId lib (RedeemRequest.userId request) of
        None \<Rightarrow> False
      | Some uid \<Rightarrow>
     (case find_one (by_id uid) (users db) of
        None \<Rightarrow> False
      | Some udoc \<Rightarrow>
     (case ObjectId lib (rewardId request) of
        None \<Rightarrow> False
      | Some rid \<Rightarrow>
     (case find_one (by_id rid) (database.rewards db) of
        None \<Rightarrow> False
      | Some rdoc \<Rightarrow>
          User.points (snd udoc) \<ge> pointsCost (snd rdoc) \<and>
          (case list_index cat_order (User.category (snd udoc)) of
             None \<Rightarrow> False
           | Some user_idx \<Rightarrow>
               (case list_index cat_order (Reward.category (snd rdoc)) of
                  None \<Rightarrow> False
                | Some reward_idx \<Rightarrow> user_idx \<ge> reward_idx))))))"

section \<open>A concrete library and sample data\<close>

text \<open>
  An instance of the library parameters for the examples: identifiers are their canonical
  text, \<open>hex_ObjectId\<close> accepts the strings of 24 hexadecimal digits as \<^verbatim>\<open>bson.ObjectId\<close> does,
  and the case functions act on ASCII letters.
\<close>

definition is_hex :: "char \<Rightarrow> bool" where
  "is_hex c = (c \<in> set ''0123456789abcdefABCDEF'')"

definition ascii_lower :: "char \<Rightarrow> char" where
  "ascii_lower c = (let n = (of_char c :: nat) in if 65 \<le> n \<and> n \<le> 90 then char_of (n + 32) else c)"

definition ascii_upper :: "char \<Rightarrow> char" where
  "ascii_upper c = (let n = (of_char c :: nat) in if 97 \<le> n \<and> n \<le> 122 then char_of (n - 32) else c)"

definition is_ascii_letter :: "char \<Rightarrow> bool" where
  "is_ascii_letter c = (let n = (of_char c :: nat) in (65 \<le> n \<and> n \<le> 90) \<or> (97 \<le> n \<and> n \<le> 122))"

fun ascii_title :: "bool \<Rightarrow> string \<Rightarrow> string" where
  "ascii_title in_word [] = []"
| "ascii_title in_word (c # cs) =
     (if is_ascii_letter c
      then (if in_word then ascii_lower c else ascii_upper c) # ascii_title True cs
      else c # ascii_title False cs)"

definition hex_ObjectId :: "string \<Rightarrow> string option" where
  "hex_ObjectId s = (if length s = 24 \<and> list_all is_hex s then Some (map ascii_lower s) else None)"

definition sample_lib :: "string lib" where
  "sample_lib =
     \<lparr>ObjectId = hex_ObjectId,
      str_oid = (\<lambda>oid. oid),
      str_title = ascii_title False,
      str_upper = map ascii_upper\<rparr>"

text \<open>The identifier whose 24 digits are the decimal digits of \<open>n\<close>, padded with zeros.\<close>

definition oid_of_nat :: "nat \<Rightarrow> string" where
  "oid_of_nat n = replicate (24 - length (str_nat n)) (CHR ''0'') @ str_nat n"

definition sample_env :: "nat \<Rightarrow> nat \<Rightarrow> string env" where
  "sample_env base r =
     \<lparr>utcnow = (\<lambda>k. base + k),
      inserted_id = (\<lambda>k. oid_of_nat (base + k)),
      entropy = r\<rparr>"

definition sample_user :: User where
  "sample_user =
     \<lparr>User.studentId = ''ST12345'',
      User.name = ''Ana'',
      User.email = ''ana@uni.pe'',
      User.password = ''secret'',
      User.avatar = ''A'',
      User.points = 350,
      User.category = ''Oro'',
      User.pointsHistory = [],
      User.recycledKg = float_lit 0,
      User.createdAt = 1\<rparr>"

definition sample_db :: "string database" where
  "sample_db =
     \<lparr>users = [(''000000000000000000000001'', sample_user)],
      database.containers =
        [(''000000000000000000000002'',
          \<lparr>Container.name = ''Contenedor A - Biblioteca'',
           Container.location = [(''x'', 30), (''y'', 40)],
           Container.status = ''operational'',
           Container.address = ''Edificio de Biblioteca, Piso 1'',
           Container.lastMaintenance = 1,
           Container.type = ''mixed''\<rparr>),
         (''000000000000000000000003'',
          \<lparr>Container.name = ''Contenedor C - Laboratorios'',
           Container.location = [(''x'', 45), (''y'', 70)],
           Container.status = ''maintenance'',
           Container.address = ''Edificio de Laboratorios, Entrada Principal'',
           Container.lastMaintenance = 1,
           Container.type = ''paper''\<rparr>)],
      database.rewards =
        [(''000000000000000000000004'',
          \<lparr>Reward.title = ''Almuerzo Gratis'',
           Reward.description = ''Almuerzo'',
           Reward.pointsCost = 250,
           Reward.category = ''Oro'',
           Reward.available = True,
           Reward.image = ''a'',
           Reward.location = ''Campus''\<rparr>),
         (''000000000000000000000005'',
          \<lparr>Reward.title = ''Mochila'',
           Reward.description = ''Mochila'',
           Reward.pointsCost = 400,
           Reward.category = ''Oro'',
           Reward.available = True,
           Reward.image = ''b'',
           Reward.location = ''Tienda RISIB''\<rparr>),
         (''000000000000000000000006'',
          \<lparr>Reward.title = ''Descuento'',
           Reward.description = ''Descuento'',
           Reward.pointsCost = 300,
           Reward.category = ''Diamante'',
           Reward.available = True,
           Reward.image = ''c'',
           Reward.location = ''Tienda Tech''\<rparr>)],
      scans = []\<rparr>"

text \<open>
  A run of the API from the empty store: the seed, a first login, a scan of the first
  container by its name.
\<close>

definition sample_run :: "string database" where
  "sample_run =
     snd (scan_qr sample_lib (sample_env 300 7)
            \<lparr>ScanQRRequest.userId = ''000000000000000000000200'',
             qrCode = ''Contenedor A - Biblioteca''\<rparr>
       (snd (login sample_lib (sample_env 200 5)
               \<lparr>UserLogin.email = ''ana@uni.pe'', UserLogin.password = ''secret''\<rparr>
          (snd (init_data (sample_env 100 0) empty_db)))))"

text \<open>The same run followed by a second scan of that container.\<close>

definition sample_rescan :: "string database" where
  "sample_rescan =
     snd (scan_qr sample_lib (sample_env 400 3)
            \<lparr>ScanQRRequest.userId = ''000000000000000000000200'',
             qrCode = ''Contenedor A - Biblioteca''\<rparr>
       sample_run)"

section \<open>Facts about the document store and the random generator\<close>

lemma find_one_split:
  "find_one query coll = Some d \<Longrightarrow>
     \<exists>pre post. coll = pre @ d # post \<and> (\<forall>x \<in> set pre. \<not> query x) \<and> query d"
proof (induction coll)
  case Nil
  then show ?case by (simp add: find_one_def)
next
  case (Cons x coll)
  show ?case
  proof (cases "query x")
    case True
    with Cons.prems have "x = d" by (simp add: find_one_def)
    with True show ?thesis by (intro exI [of _ "[]"] exI [of _ coll]) simp
  next
    case False
    with Cons.prems have "find_one query coll = Some d" by (simp add: find_one_def)
    from Cons.IH [OF this] obtain pre post where
      "coll = pre @ d # post" "\<forall>x \<in> set pre. \<not> query x" "query d" by blast
    with False show ?thesis by (intro exI [of _ "x # pre"] exI [of _ post]) simp
  qed
qed

lemma update_one_split:
  "\<forall>x \<in> set pre. \<not> query x \<Longrightarrow> query d \<Longrightarrow>
     update_one query upd (pre @ d # post) = pre @ (fst d, upd (snd d)) # post"
  by (induction pre) simp_all

lemma list_all_update_one:
  "list_all P coll \<Longrightarrow> (\<And>i d. P (i, upd d)) \<Longrightarrow> list_all P (update_one query upd coll)"
  by (induction coll) simp_all

lemma find_one_None: "find_one query coll = None \<longleftrightarrow> (\<forall>x \<in> set coll. \<not> query x)"
  by (auto simp: find_one_def find_None_iff)

lemma randint_bounds: "a \<le> b \<Longrightarrow> a \<le> randint a b r \<and> randint a b r \<le> b"
proof -
  assume ab: "a \<le> b"
  have "int (r mod nat (b - a + 1)) < int (nat (b - a + 1))"
    using ab by (intro iffD2 [OF of_nat_less_iff] mod_less_divisor) simp
  with ab show ?thesis by (simp add: randint_def)
qed

section \<open>Facts about floats\<close>

text \<open>
  The exponent search finds the binary exponent, rounding is off by at most half a unit in
  the last place, a magnitude up to \<open>2^1023\<close> never overflows, and small integers convert
  exactly.
\<close>

lemma exp_down_bounds: "- 1022 \<le> exp_down n x \<and> exp_down n x \<le> int n - 1022"
  by (induction n) auto

lemma exponent_bounds: "- 1022 \<le> exponent x" "exponent x \<le> 1023"
  using exp_down_bounds [of 2045 x] by (simp_all add: exponent_def)

lemma exp_down_eq:
  "- 1022 \<le> e \<Longrightarrow> e \<le> int n - 1022 \<Longrightarrow> 2 powi e \<le> \<bar>x\<bar> \<or> e = - 1022
     \<Longrightarrow> \<bar>x\<bar> < 2 powi (e + 1) \<Longrightarrow> exp_down n x = e"
proof (induction n)
  case 0
  then show ?case by simp
next
  case (Suc n)
  show ?case
  proof (cases "e = int (Suc n) - 1022")
    case True
    with Suc.prems show ?thesis by auto
  next
    case False
    with Suc.prems have le: "e + 1 \<le> int (Suc n) - 1022" by simp
    have "(2::rat) powi (e + 1) \<le> 2 powi (int (Suc n) - 1022)"
      by (rule power_int_increasing [OF le]) simp
    with Suc.prems have "\<not> 2 powi (int (Suc n) - 1022) \<le> \<bar>x\<bar>" by linarith
    moreover have "exp_down n x = e"
      using Suc.prems False by (intro Suc.IH) auto
    ultimately show ?thesis by simp
  qed
qed

lemma exponent_eq:
  "- 1022 \<le> e \<Longrightarrow> e \<le> 1023 \<Longrightarrow> 2 powi e \<le> \<bar>x\<bar> \<or> e = - 1022
     \<Longrightarrow> \<bar>x\<bar> < 2 powi (e + 1) \<Longrightarrow> exponent x = e"
  unfolding exponent_def by (rule exp_down_eq) simp_all

lemma exp_down_le:
  "\<bar>x\<bar> < 2 powi (e + 1) \<Longrightarrow> - 1022 \<le> e \<Longrightarrow> exp_down n x \<le> e"
proof (induction n)
  case 0
  then show ?case by simp
next
  case (Suc n)
  show ?case
  proof (cases "2 powi (int (Suc n) - 1022) \<le> \<bar>x\<bar>")
    case True
    with Suc.prems have "(2::rat) powi (int (Suc n) - 1022) < 2 powi (e + 1)" by linarith
    have "int (Suc n) - 1022 < e + 1"
    proof (rule ccontr)
      assume "\<not> int (Suc n) - 1022 < e + 1"
      then have "e + 1 \<le> int (Suc n) - 1022" by simp
      then have "(2::rat) powi (e + 1) \<le> 2 powi (int (Suc n) - 1022)"
        by (rule power_int_increasing) simp
      with \<open>(2::rat) powi (int (Suc n) - 1022) < 2 powi (e + 1)\<close> show False by simp
    qed
    with True show ?thesis by simp
  next
    case False
    with Suc show ?thesis by simp
  qed
qed

lemma exponent_le: "\<bar>x\<bar> < 2 powi (e + 1) \<Longrightarrow> - 1022 \<le> e \<Longrightarrow> exponent x \<le> e"
  unfolding exponent_def by (rule exp_down_le)

lemma exp_down_top: "2 powi (int n - 1022) \<le> \<bar>x\<bar> \<Longrightarrow> exp_down n x = int n - 1022"
  by (cases n) simp_all

lemma nearest_top:
  "2 powi 1023 \<le> \<bar>x\<bar> \<Longrightarrow> nearest x = of_int (round_half_even (x / 2 powi 971)) * 2 powi 971"
  using exp_down_top [of 2045 x] by (simp add: nearest_def exponent_def)

lemma nearest_eq:
  "- 1022 \<le> e \<Longrightarrow> e \<le> 1023 \<Longrightarrow> 2 powi e \<le> \<bar>x\<bar> \<or> e = - 1022
     \<Longrightarrow> \<bar>x\<bar> < 2 powi (e + 1)
     \<Longrightarrow> nearest x = of_int (round_half_even (x / 2 powi (e - 52))) * 2 powi (e - 52)"
  by (simp add: nearest_def exponent_eq)

lemma round_half_even_error: "\<bar>of_int (round_half_even y) - y\<bar> \<le> 1 / 2"
proof -
  have "of_int \<lfloor>y\<rfloor> \<le> y" "y < of_int \<lfloor>y\<rfloor> + 1"
    by linarith+
  then show ?thesis
    unfolding round_half_even_def Let_def by (auto simp: abs_le_iff)
qed

lemma round_half_even_of_int: "round_half_even (of_int n) = n"
  by (simp add: round_half_even_def)

lemma nearest_error: "\<bar>nearest x - x\<bar> \<le> 2 powi (exponent x - 53)"
proof -
  define q :: rat where "q = 2 powi (exponent x - 52)"
  have q: "0 < q" by (simp add: q_def)
  have "nearest x - x = (of_int (round_half_even (x / q)) - x / q) * q"
    using q by (simp add: nearest_def q_def field_simps)
  then have "\<bar>nearest x - x\<bar> = \<bar>of_int (round_half_even (x / q)) - x / q\<bar> * q"
    using q by (simp add: abs_mult)
  also have "\<dots> \<le> (1 / 2) * q"
    using round_half_even_error [of "x / q"] q by (intro mult_right_mono) simp_all
  also have "(1 / 2) * q = 2 powi (exponent x - 53)"
    unfolding q_def using power_int_add [of "2::rat" "exponent x - 53" 1] by simp
  finally show ?thesis .
qed

lemma round_double_finite:
  assumes "\<bar>x\<bar> \<le> 2 powi 1023"
  shows "round_double x = Finite (nearest x)"
proof -
  have "exponent x - 53 \<le> 970"
    using exponent_bounds(2) [of x] by simp
  then have "(2::rat) powi (exponent x - 53) \<le> 2 powi 970"
    by (rule power_int_increasing) simp
  with nearest_error [of x] have "\<bar>nearest x\<bar> \<le> \<bar>x\<bar> + 2 powi 970"
    by linarith
  with assms have "\<bar>nearest x\<bar> \<le> 2 powi 1023 + 2 powi 970"
    by linarith
  also have "\<dots> < (2::rat) powi 1024"
    by simp
  finally show ?thesis
    by (simp add: round_double_def)
qed

lemma floor_numeral_fraction:
  "\<lfloor>numeral a / numeral b :: rat\<rfloor> = numeral a div numeral b"
  "\<lfloor>- (numeral a / numeral b) :: rat\<rfloor> = - numeral a div numeral b"
  using floor_divide_of_int_eq [of "numeral a" "numeral b", where ?'a = rat]
    floor_divide_of_int_eq [of "- numeral a" "numeral b", where ?'a = rat]
  by simp_all

lemmas double_eval = round_half_even_def Let_def floor_numeral_fraction

lemma float_lit_zero: "float_lit 0 = Finite 0"
  by (simp add: float_lit_def round_double_def nearest_def round_half_even_def)

lemma nearest_tenth: "nearest (1 / 10) = 3602879701896397 / 36028797018963968"
  by (subst nearest_eq [where e = "- 4"]) (simp_all add: double_eval)

lemma float_lit_tenth: "float_lit (1 / 10) = Finite (3602879701896397 / 36028797018963968)"
  by (simp add: float_lit_def round_double_def nearest_tenth)

lemma nearest_of_int:
  assumes "0 \<le> e" and "e \<le> 52" and "2 ^ nat e \<le> \<bar>i\<bar>" and "\<bar>i\<bar> < 2 ^ nat (e + 1)"
  shows "nearest (of_int i) = of_int i"
proof -
  have lo: "(2::rat) powi e \<le> \<bar>of_int i\<bar>"
  proof -
    have "(of_int (2 ^ nat e) :: rat) \<le> of_int \<bar>i\<bar>"
      using assms(3) by (simp only: of_int_le_iff)
    then show ?thesis using assms(1) by (simp add: power_int_def)
  qed
  have hi: "\<bar>of_int i :: rat\<bar> < 2 powi (e + 1)"
  proof -
    have "(of_int \<bar>i\<bar> :: rat) < of_int (2 ^ nat (e + 1))"
      using assms(4) by (simp only: of_int_less_iff)
    then show ?thesis using assms(1) by (simp add: power_int_def)
  qed
  have scale: "(of_int i :: rat) / 2 powi (e - 52) = of_int (i * 2 ^ nat (52 - e))"
  proof -
    have "(2::rat) powi (e - 52) = 1 / 2 powi (52 - e)"
      using power_int_minus_divide [of "2::rat" "52 - e"] by simp
    also have "(2::rat) powi (52 - e) = 2 ^ nat (52 - e)"
      using assms(2) by (simp add: power_int_def)
    finally show ?thesis by simp
  qed
  have unscale: "(of_int (i * 2 ^ nat (52 - e)) :: rat) * 2 powi (e - 52) = of_int i"
    using scale by (simp add: field_simps)
  have "nearest (of_int i) =
          of_int (round_half_even (of_int i / 2 powi (e - 52))) * 2 powi (e - 52)"
    using assms(1,2) lo hi by (intro nearest_eq) simp_all
  then show ?thesis
    by (simp only: scale round_half_even_of_int unscale)
qed

lemma float_of_int_exact:
  assumes "0 \<le> e" and "e \<le> 52" and "2 ^ nat e \<le> \<bar>i\<bar>" and "\<bar>i\<bar> < 2 ^ nat (e + 1)"
  shows "float_of_int i = Inr (Finite (of_int i))"
proof -
  have "\<bar>of_int i :: rat\<bar> < of_int (2 ^ nat (e + 1))"
    using assms(4) by (simp only: of_int_abs [symmetric] of_int_less_iff)
  also have "(of_int (2 ^ nat (e + 1)) :: rat) = 2 ^ nat (e + 1)"
    by simp
  also have "(2::rat) ^ nat (e + 1) \<le> 2 ^ 53"
    using assms(1,2) by (intro power_increasing) simp_all
  also have "(2::rat) ^ 53 \<le> 2 powi 1023"
    by simp
  finally have "round_double (of_int i) = Finite (nearest (of_int i))"
    by (intro round_double_finite) simp
  then show ?thesis
    by (simp add: float_of_int_def nearest_of_int [OF assms])
qed

lemma float_of_int_points:
  assumes "10 \<le> p" and "p \<le> 50"
  shows "float_of_int p = Inr (Finite (of_int p))"
proof -
  consider "p < 16" | "16 \<le> p" "p < 32" | "32 \<le> p"
    by linarith
  then show ?thesis
  proof cases
    case 1
    with assms show ?thesis by (intro float_of_int_exact [where e = 3]) simp_all
  next
    case 2
    with assms show ?thesis by (intro float_of_int_exact [where e = 4]) simp_all
  next
    case 3
    with assms show ?thesis by (intro float_of_int_exact [where e = 5]) simp_all
  qed
qed

lemma float_of_int_100: "float_of_int 100 = Inr (Finite 100)"
  using float_of_int_exact [where e = 6 and i = 100] by simp

lemma nearest_error_tight:
  assumes "\<bar>x\<bar> < 2 powi (e + 1)" and "- 1022 \<le> e"
  shows "\<bar>nearest x - x\<bar> \<le> 2 powi (e - 53)"
proof -
  have "exponent x - 53 \<le> e - 53"
    using exponent_le [OF assms] by simp
  then have "(2::rat) powi (exponent x - 53) \<le> 2 powi (e - 53)"
    by (rule power_int_increasing) simp
  with nearest_error [of x] show ?thesis by linarith
qed

lemma int_truediv_finite:
  assumes "b \<noteq> 0" and "\<bar>a\<bar> \<le> 2 ^ 1023"
  shows "int_truediv a b = Inr (Finite (nearest (of_int a / of_int b)))"
proof -
  have "1 \<le> \<bar>b\<bar>" using assms(1) by simp
  then have "(of_int (1::int) :: rat) \<le> of_int \<bar>b\<bar>"
    by (simp only: of_int_le_iff)
  then have "(1::rat) \<le> \<bar>of_int b\<bar>"
    by simp
  then have "\<bar>of_int a :: rat\<bar> * 1 \<le> \<bar>of_int a\<bar> * \<bar>of_int b\<bar>"
    by (intro mult_left_mono) simp_all
  then have "\<bar>of_int a / of_int b :: rat\<bar> \<le> \<bar>of_int a\<bar>"
    using assms(1) by (simp add: abs_divide divide_le_eq)
  also have "\<bar>of_int a :: rat\<bar> \<le> of_int (2 ^ 1023)"
    using assms(2) by (simp only: of_int_abs [symmetric] of_int_le_iff)
  also have "(of_int (2 ^ 1023) :: rat) = 2 powi 1023"
    by simp
  finally have "round_double (of_int a / of_int b) = Finite (nearest (of_int a / of_int b))"
    by (rule round_double_finite)
  with assms(1) show ?thesis
    by (simp add: int_truediv_def)
qed

lemma progress_bound:
  assumes "0 \<le> p" and "p < t"
  shows "\<exists>v. float_mul (Finite (nearest (of_int p / of_int t))) (Finite 100) = Finite v
             \<and> \<bar>v - of_int p / of_int t * 100\<bar> \<le> 2 powi (- 46)"
proof -
  define x :: rat where "x = of_int p / of_int t"
  define y :: rat where "y = nearest x * 100"
  have x: "0 \<le> x" "x < 1"
    using assms by (simp_all add: x_def)
  have ex: "\<bar>nearest x - x\<bar> \<le> 2 powi (- 54)"
    using nearest_error_tight [of x "- 1"] x by simp
  have ysmall: "\<bar>y\<bar> < 128"
    using ex x by (simp add: y_def abs_if split: if_splits)
  have ey: "\<bar>nearest y - y\<bar> \<le> 2 powi (- 47)"
    using nearest_error_tight [of y 6] ysmall by simp
  have ry: "round_double y = Finite (nearest y)"
    using ysmall by (intro round_double_finite) simp
  have "\<bar>nearest y - x * 100\<bar> \<le> \<bar>nearest y - y\<bar> + \<bar>nearest x - x\<bar> * 100"
    by (simp add: y_def abs_if split: if_splits)
  also have "\<dots> \<le> 2 powi (- 47) + 2 powi (- 54) * 100"
    using ex ey by simp
  also have "\<dots> \<le> (2::rat) powi (- 46)"
    by simp
  finally have "\<bar>nearest y - x * 100\<bar> \<le> 2 powi (- 46)" .
  then show ?thesis
    unfolding x_def [symmetric] by (simp add: ry y_def [symmetric])
qed

lemma kg_bound:
  assumes "10 \<le> p" and "p \<le> 50"
  shows "\<exists>k. float_mul (Finite (of_int p)) (float_lit (1 / 10)) = Finite k
             \<and> \<bar>k - of_int p / 10\<bar> \<le> 2 powi (- 50)"
proof -
  define c :: rat where "c = 3602879701896397 / 36028797018963968"
  define y :: rat where "y = of_int p * c"
  have p: "(10::rat) \<le> of_int p" "(of_int p :: rat) \<le> 50"
    using assms by simp_all
  have ysmall: "\<bar>y\<bar> < 8"
    using p by (simp add: y_def c_def abs_if)
  have ey: "\<bar>nearest y - y\<bar> \<le> 2 powi (- 51)"
    using nearest_error_tight [of y 2] ysmall by simp
  have ry: "round_double y = Finite (nearest y)"
    using ysmall by (intro round_double_finite) simp
  have "y - of_int p / 10 = of_int p / 180143985094819840"
    by (simp add: y_def c_def field_simps)
  then have "\<bar>y - of_int p / 10\<bar> \<le> 50 / 180143985094819840"
    using p by simp
  with ey have "\<bar>nearest y - of_int p / 10\<bar> \<le> 2 powi (- 51) + 50 / 180143985094819840"
    by linarith
  also have "\<dots> \<le> (2::rat) powi (- 50)"
    by simp
  finally show ?thesis
    by (simp add: float_lit_tenth ry y_def [symmetric] c_def [symmetric])
qed

lemma int_times_float_points:
  "10 \<le> p \<Longrightarrow> p \<le> 50 \<Longrightarrow>
     int_times_float p x = Inr (float_mul (Finite (of_int p)) x)"
  by (simp add: int_times_float_def float_of_int_points)

lemma kg_17:
  "float_mul (Finite 17) (float_lit (1 / 10)) = Finite (1914029841632461 / 1125899906842624)"
  by (simp add: float_lit_tenth round_double_def nearest_eq [where e = 0] double_eval)

lemma kg_13:
  "float_mul (Finite 13) (float_lit (1 / 10)) = Finite (5854679515581645 / 4503599627370496)"
  by (simp add: float_lit_tenth round_double_def nearest_eq [where e = 0] double_eval)

lemma sum_0_17:
  "float_add (Finite 0) (Finite (1914029841632461 / 1125899906842624))
     = Finite (1914029841632461 / 1125899906842624)"
  by (simp add: round_double_def nearest_eq [where e = 0] double_eval)

lemma sum_17_13:
  "float_add (Finite (1914029841632461 / 1125899906842624))
       (Finite (5854679515581645 / 4503599627370496))
     = Finite 3"
  by (simp add: round_double_def nearest_eq [where e = 1] double_eval)

lemma progress_7:
  "int_truediv 7 100 = Inr (Finite (1261007895663739 / 18014398509481984))"
  "float_mul (Finite (1261007895663739 / 18014398509481984)) (Finite 100)
     = Finite (7881299347898369 / 1125899906842624)"
  by (simp_all add: int_truediv_def round_double_def nearest_eq [where e = "- 4"]
        nearest_eq [where e = 2] double_eval)

section \<open>Evaluation of the sample data\<close>

lemma digit_char_eval:
  "digit_char 0 = CHR ''0''" "digit_char 1 = CHR ''1''" "digit_char 2 = CHR ''2''"
  "digit_char 3 = CHR ''3''" "digit_char 4 = CHR ''4''" "digit_char 5 = CHR ''5''"
  "digit_char 6 = CHR ''6''" "digit_char 7 = CHR ''7''" "digit_char 8 = CHR ''8''"
  "digit_char 9 = CHR ''9''"
  by code_simp+

lemma zeros_21: "replicate 21 (CHR ''0'') = ''000000000000000000000''"
  by code_simp

lemma oid_of_nat_200: "oid_of_nat 200 = ''000000000000000000000200''"
  by (simp add: oid_of_nat_def str_nat.simps digit_char_eval zeros_21)

lemma sample_lib_simps:
  "ObjectId sample_lib = hex_ObjectId" "str_oid sample_lib oid = oid"
  by (simp_all add: sample_lib_def)

lemma sample_env_simps:
  "utcnow (sample_env base r) k = base + k"
  "inserted_id (sample_env base r) k = oid_of_nat (base + k)"
  "entropy (sample_env base r) = r"
  by (simp_all add: sample_env_def)

lemma sample_parse:
  "hex_ObjectId ''000000000000000000000001'' = Some ''000000000000000000000001''"
  "hex_ObjectId ''000000000000000000000002'' = Some ''000000000000000000000002''"
  "hex_ObjectId ''000000000000000000000004'' = Some ''000000000000000000000004''"
  "hex_ObjectId ''000000000000000000000005'' = Some ''000000000000000000000005''"
  "hex_ObjectId ''000000000000000000000006'' = Some ''000000000000000000000006''"
  "hex_ObjectId ''000000000000000000000009'' = Some ''000000000000000000000009''"
  "hex_ObjectId ''abc'' = None"
  "hex_ObjectId ''Contenedor A - Biblioteca'' = None"
  "hex_ObjectId ''Contenedor C - Laboratorios'' = None"
  by code_simp+

lemmas sample_eval = sample_lib_def sample_env_def sample_db_def sample_user_def sample_parse
  resolve_container_def find_one_def by_id_def by_name_def

section \<open>The category ladder\<close>

lemmas tier_defs = get_category_from_points_def get_category_requirements_def cat_order_def
  Clasico_def a_acute_def

text \<open>
  C1. \<open>get_category_from_points p\<close> is a tier of the ladder; for every points value
  \<open>p \<ge> 0\<close> its threshold is at most \<open>p\<close>, and no tier whose threshold is at most \<open>p\<close> has a
  higher threshold, so it is the highest tier whose threshold is at most \<open>p\<close> (below \<open>0\<close>,
  where no threshold is met, the function returns the bottom tier). At the boundaries:
  99 gives Clasico, 100 Plata, 299 still Plata (one below the Oro threshold), 300 Oro,
  1000 Black. The function is non-decreasing: \<open>p \<le> q\<close> puts the tier of \<open>p\<close> at or below
  the tier of \<open>q\<close> in the ladder.
\<close>

theorem get_category_from_points_highest_tier:
  "get_category_from_points p \<in> set cat_order
   \<and> (0 \<le> p \<longrightarrow> get_category_requirements (get_category_from_points p) \<le> p)
   \<and> (\<forall>c \<in> set cat_order. get_category_requirements c \<le> p \<longrightarrow>
          get_category_requirements c \<le> get_category_requirements (get_category_from_points p))
   \<and> get_category_from_points 99 = Clasico
   \<and> get_category_from_points 100 = ''Plata''
   \<and> get_category_from_points 299 = ''Plata''
   \<and> get_category_from_points 300 = ''Oro''
   \<and> get_category_from_points 1000 = ''Black''
   \<and> (p \<le> q \<longrightarrow>
         (\<exists>i j. list_index cat_order (get_category_from_points p) = Some i
              \<and> list_index cat_order (get_category_from_points q) = Some j \<and> i \<le> j))"
  by (simp add: tier_defs)

theorem get_category_from_points_highest_tier_witness:
  "(0::int) \<le> 650
   \<and> get_category_from_points 650 = ''Diamante''
   \<and> get_category_requirements (get_category_from_points 650) \<le> 650
   \<and> ''Oro'' \<in> set cat_order
   \<and> get_category_requirements ''Oro'' \<le> 650
   \<and> get_category_requirements ''Oro'' \<le> get_category_requirements (get_category_from_points 650)
   \<and> (650::int) \<le> 1000
   \<and> list_index cat_order (get_category_from_points 650) = Some 3
   \<and> list_index cat_order (get_category_from_points 1000) = Some 4"
  using get_category_from_points_highest_tier [of 650 1000]
  by (simp add: tier_defs)

text \<open>
  C8, as the code has it. For every points value \<open>0 \<le> p < 1000\<close> (and every integer \<open>p\<close> from
  \<open>-2^1023\<close>), \<open>get_next_category_info p\<close> is the entry of the first threshold \<open>t\<close> above \<open>p\<close>
  (no threshold above \<open>p\<close> is smaller), with that tier's name, \<open>pointsNeeded = t - p\<close>,
  \<open>currentPoints = p\<close>, \<open>totalPoints = t\<close>, and as progress the double \<^verbatim>\<open>(p / t) * 100\<close>: the
  quotient rounded to the nearest double, times 100, rounded again. For \<open>p \<ge> 0\<close> this double
  lies within \<open>2^(-46)\<close> of \<open>p / t \<times> 100\<close>. For every \<open>p \<ge> 1000\<close> the result is \<open>None\<close>. At \<open>0\<close> it
  is Plata with \<open>pointsNeeded = 100\<close> and progress \<open>0\<close>.
\<close>

theorem get_next_category_info_next_threshold:
  "(- (2 ^ 1023) \<le> p \<and> p < 1000 \<longrightarrow>
      (\<exists>t c. (t, c) \<in> set thresholds \<and> p < t
         \<and> (\<forall>tc \<in> set thresholds. p < fst tc \<longrightarrow> t \<le> fst tc)
         \<and> get_category_requirements c = t
         \<and> get_next_category_info p =
             Inr (Some \<lparr>NextCategory.name = c, pointsNeeded = t - p, currentPoints = p,
                        totalPoints = t,
                        progress =
                          float_mul (Finite (nearest (of_int p / of_int t))) (Finite 100)\<rparr>)
         \<and> (0 \<le> p \<longrightarrow>
              (\<exists>v. float_mul (Finite (nearest (of_int p / of_int t))) (Finite 100) = Finite v
                   \<and> \<bar>v - of_int p / of_int t * 100\<bar> \<le> 2 powi (- 46)))))
   \<and> (1000 \<le> p \<longrightarrow> get_next_category_info p = Inr None)
   \<and> get_next_category_info 0 =
         Inr (Some \<lparr>NextCategory.name = ''Plata'', pointsNeeded = 100, currentPoints = 0,
                    totalPoints = 100, progress = Finite 0\<rparr>)"
proof -
  have skip: "next_category_loop ((t, c) # rest) p = next_category_loop rest p"
    if "\<not> p < t" for t c rest
    using that by simp
  have entry: "next_category_loop ((t, c) # rest) p =
      Inr (Some \<lparr>NextCategory.name = c, pointsNeeded = t - p, currentPoints = p,
                 totalPoints = t,
                 progress = float_mul (Finite (nearest (of_int p / of_int t))) (Finite 100)\<rparr>)"
    if "p < t" and "0 < t" and "\<bar>p\<bar> \<le> 2 ^ 1023" for t c rest
    using that
    by (simp add: int_truediv_finite float_times_int_def float_of_int_100 del: float_mul.simps)
  have below: "\<exists>t c. (t, c) \<in> set thresholds \<and> p < t
         \<and> (\<forall>tc \<in> set thresholds. p < fst tc \<longrightarrow> t \<le> fst tc)
         \<and> get_category_requirements c = t
         \<and> get_next_category_info p =
             Inr (Some \<lparr>NextCategory.name = c, pointsNeeded = t - p, currentPoints = p,
                        totalPoints = t,
                        progress =
                          float_mul (Finite (nearest (of_int p / of_int t))) (Finite 100)\<rparr>)
         \<and> (0 \<le> p \<longrightarrow>
              (\<exists>v. float_mul (Finite (nearest (of_int p / of_int t))) (Finite 100) = Finite v
                   \<and> \<bar>v - of_int p / of_int t * 100\<bar> \<le> 2 powi (- 46)))"
    if lo: "- (2 ^ 1023) \<le> p" and hi: "p < 1000"
  proof -
    have small: "\<bar>p\<bar> \<le> 2 ^ 1023"
      using lo hi by simp
    have found: "(t, c) \<in> set thresholds \<and> p < t
         \<and> (\<forall>tc \<in> set thresholds. p < fst tc \<longrightarrow> t \<le> fst tc)
         \<and> get_category_requirements c = t
         \<and> get_next_category_info p =
             Inr (Some \<lparr>NextCategory.name = c, pointsNeeded = t - p, currentPoints = p,
                        totalPoints = t,
                        progress =
                          float_mul (Finite (nearest (of_int p / of_int t))) (Finite 100)\<rparr>)
         \<and> (0 \<le> p \<longrightarrow>
              (\<exists>v. float_mul (Finite (nearest (of_int p / of_int t))) (Finite 100) = Finite v
                   \<and> \<bar>v - of_int p / of_int t * 100\<bar> \<le> 2 powi (- 46)))"
      if table: "(t, c) \<in> set thresholds \<and> (\<forall>tc \<in> set thresholds. p < fst tc \<longrightarrow> t \<le> fst tc)
                  \<and> get_category_requirements c = t"
        and info: "get_next_category_info p = next_category_loop ((t, c) # rest) p"
        and above: "p < t" and pos: "0 < t" for t c rest
      using table above progress_bound [of p t]
      by (simp only: info entry [OF above pos small]) blast
    consider "p < 100" | "100 \<le> p" "p < 300" | "300 \<le> p" "p < 600" | "600 \<le> p" "p < 1000"
      using hi by linarith
    then show ?thesis
    proof cases
      case 1
      then show ?thesis
        by (intro exI [of _ 100] exI [of _ "''Plata''"],
            intro found [where rest = "[(300, ''Oro''), (600, ''Diamante''), (1000, ''Black'')]"])
           (simp_all add: get_next_category_info_def thresholds_def tier_defs skip
              del: next_category_loop.simps)
    next
      case 2
      then show ?thesis
        by (intro exI [of _ 300] exI [of _ "''Oro''"],
            intro found [where rest = "[(600, ''Diamante''), (1000, ''Black'')]"])
           (simp_all add: get_next_category_info_def thresholds_def tier_defs skip
              del: next_category_loop.simps)
    next
      case 3
      then show ?thesis
        by (intro exI [of _ 600] exI [of _ "''Diamante''"],
            intro found [where rest = "[(1000, ''Black'')]"])
           (simp_all add: get_next_category_info_def thresholds_def tier_defs skip
              del: next_category_loop.simps)
    next
      case 4
      then show ?thesis
        by (intro exI [of _ 1000] exI [of _ "''Black''"],
            intro found [where rest = "[]"])
           (simp_all add: get_next_category_info_def thresholds_def tier_defs skip
              del: next_category_loop.simps)
    qed
  qed
  have top: "get_next_category_info p = Inr None" if "1000 \<le> p"
    using that by (simp add: thresholds_def get_next_category_info_def)
  have zero: "get_next_category_info 0 =
         Inr (Some \<lparr>NextCategory.name = ''Plata'', pointsNeeded = 100, currentPoints = 0,
                    totalPoints = 100, progress = Finite 0\<rparr>)"
    by (simp add: thresholds_def get_next_category_info_def int_truediv_def
          float_times_int_def float_of_int_100 round_double_def nearest_def round_half_even_def)
  show ?thesis using below top zero by blast
qed

theorem get_next_category_info_next_threshold_witness:
  "- (2 ^ 1023) \<le> (750::int) \<and> (750::int) < 1000 \<and> (0::int) \<le> 750
   \<and> get_next_category_info 750 =
        Inr (Some \<lparr>NextCategory.name = ''Black'', pointsNeeded = 250, currentPoints = 750,
                   totalPoints = 1000, progress = Finite 75\<rparr>)
   \<and> (1000::int) \<le> 1200 \<and> get_next_category_info 1200 = Inr None"
proof -
  have d: "int_truediv 750 1000 = Inr (Finite (3 / 4))"
    by (simp add: int_truediv_def round_double_def nearest_eq [where e = "- 1"] double_eval)
  have m: "float_times_int (Finite (3 / 4)) 100 = Inr (Finite 75)"
    by (simp add: float_times_int_def float_of_int_100 round_double_def
          nearest_eq [where e = 6] double_eval)
  have c1: "get_next_category_info 750 =
        Inr (Some \<lparr>NextCategory.name = ''Black'', pointsNeeded = 250, currentPoints = 750,
                   totalPoints = 1000, progress = Finite 75\<rparr>)"
    by (simp add: thresholds_def get_next_category_info_def d m)
  have c2: "get_next_category_info 1200 = Inr None"
    using get_next_category_info_next_threshold [of 1200] by simp
  have c3: "- (2 ^ 1023) \<le> (750::int)" "(750::int) < 1000" "(0::int) \<le> 750" "(1000::int) \<le> 1200"
    by simp_all
  show ?thesis
    using get_next_category_info_next_threshold [of 750]
    by (intro conjI c1 c2 c3)
qed

text \<open>
  Far below the range of the points field the true division itself fails: the quotient is
  too large for a float and Python raises \<^verbatim>\<open>OverflowError\<close>.
\<close>

lemma get_next_category_info_overflow:
  "get_next_category_info (- (10 ^ 311)) = Inl OverflowError"
  by (simp add: thresholds_def get_next_category_info_def int_truediv_def round_double_def
        nearest_top double_eval)

text \<open>
  The claim C8 as stated fails at \<open>p = 7\<close>: the progress the code returns is the double
  \<open>7.000000000000001\<close>, not \<open>7 / 100 \<times> 100 = 7\<close>.
\<close>

theorem get_next_category_info_progress_counterexample:
  "get_next_category_info 7 =
     Inr (Some \<lparr>NextCategory.name = ''Plata'', pointsNeeded = 93, currentPoints = 7,
                totalPoints = 100,
                progress = Finite (7881299347898369 / 1125899906842624)\<rparr>)
   \<and> (7881299347898369 / 1125899906842624 :: rat) \<noteq> 7 / 100 * 100"
proof -
  have m: "float_times_int (Finite (1261007895663739 / 18014398509481984)) 100
             = Inr (Finite (7881299347898369 / 1125899906842624))"
    by (simp only: float_times_int_def float_of_int_100 sum.case progress_7)
  show ?thesis
    by (simp add: thresholds_def get_next_category_info_def progress_7(1) m)
qed

section \<open>The category invariant\<close>

lemma users_login:
  "users (snd (login lib env credentials db)) = users db
   \<or> (\<exists>nu. new_user lib env credentials = Inr nu
         \<and> users (snd (login lib env credentials db)) = users db @ [(inserted_id env 0, nu)])"
  by (simp add: login_def insert_one_def Let_def split: option.splits sum.splits)

lemma users_register:
  "users (snd (register lib env credentials db)) = users db
   \<or> (\<exists>nu. new_user lib env credentials = Inr nu
         \<and> users (snd (register lib env credentials db)) = users db @ [(inserted_id env 0, nu)])"
  by (simp add: register_def insert_one_def Let_def split: option.splits sum.splits)

lemma new_user_consistent:
  "new_user lib env credentials = Inr nu \<Longrightarrow>
     User.points nu = 0 \<and> User.category nu = Clasico
     \<and> User.category nu = get_category_from_points (User.points nu)"
  by (auto simp: new_user_def get_category_from_points_def split: option.splits)

lemma consistent_login:
  "category_consistent db \<Longrightarrow> category_consistent (snd (login lib env credentials db))"
  using users_login [of lib env credentials db]
  by (auto simp: category_consistent_def dest: new_user_consistent)

lemma consistent_register:
  "category_consistent db \<Longrightarrow> category_consistent (snd (register lib env credentials db))"
  using users_register [of lib env credentials db]
  by (auto simp: category_consistent_def dest: new_user_consistent)

lemma consistent_redeem:
  "category_consistent db \<Longrightarrow> category_consistent (snd (redeem_reward lib env request db))"
  by (simp add: redeem_reward_def category_consistent_def Let_def list_all_update_one
           split: option.splits)

lemma consistent_scan:
  "category_consistent db \<Longrightarrow> category_consistent (snd (scan_qr lib env request db))"
  by (simp add: scan_qr_def category_consistent_def Let_def list_all_update_one
           split: option.splits sum.splits)

lemma consistent_init:
  "category_consistent db \<Longrightarrow> category_consistent (snd (init_data env db))"
  by (simp add: init_data_def category_consistent_def Let_def)

lemma reachable_consistent: "reachable lib db \<Longrightarrow> category_consistent db"
proof (induction rule: reachable.induct)
  case reachable_empty
  show ?case by (simp add: category_consistent_def empty_db_def)
qed (simp_all add: consistent_login consistent_register consistent_redeem consistent_scan
       consistent_init)

text \<open>
  C2. In every state the API can reach from the empty store, every stored user document has
  \<open>category = get_category_from_points points\<close>: \<^verbatim>\<open>login\<close> and \<^verbatim>\<open>register\<close> create users with
  points 0 and category Clasico, \<^verbatim>\<open>redeem_reward\<close> and \<^verbatim>\<open>scan_qr\<close> write the recomputed
  category together with the new points, and no other handler writes a user.
\<close>

theorem stored_category_is_function_of_points:
  assumes "reachable lib db" and "doc \<in> set (users db)"
  shows "User.category (snd doc) = get_category_from_points (User.points (snd doc))"
  using reachable_consistent [OF assms(1)] assms(2)
  by (simp add: category_consistent_def list_all_iff)

lemma run_parse:
  "hex_ObjectId ''000000000000000000000200'' = Some ''000000000000000000000200''"
  "hex_ObjectId ''Contenedor A - Biblioteca'' = None"
  "first_char ''ana@uni.pe'' = Some ''a''"
  by code_simp+

lemma run_init:
  "find_one (by_name ''Contenedor A - Biblioteca'')
     (database.containers (snd (init_data (sample_env 100 0) empty_db)))
   = Some (inserted_id (sample_env 100 0) 0, hd (containers_data (sample_env 100 0)))"
  "users (snd (init_data (sample_env 100 0) empty_db)) = []"
  by (simp_all add: init_data_def empty_db_def count_documents_def containers_data_def
        insert_one_def find_one_def by_name_def Let_def)

lemma run_login:
  "users (snd (login sample_lib (sample_env 200 5)
               \<lparr>UserLogin.email = ''ana@uni.pe'', UserLogin.password = ''secret''\<rparr>
          (snd (init_data (sample_env 100 0) empty_db))))
   = [(''000000000000000000000200'',
       \<lparr>User.studentId = ''ST'' @ str_int (randint 10000 99999 5),
        User.name = str_title sample_lib ''ana'',
        User.email = ''ana@uni.pe'',
        User.password = ''secret'',
        User.avatar = str_upper sample_lib ''a'',
        User.points = 0,
        User.category = Clasico,
        User.pointsHistory = [],
        User.recycledKg = float_lit 0,
        User.createdAt = 200\<rparr>)]"
  "database.containers (snd (login sample_lib (sample_env 200 5)
               \<lparr>UserLogin.email = ''ana@uni.pe'', UserLogin.password = ''secret''\<rparr>
          (snd (init_data (sample_env 100 0) empty_db))))
   = database.containers (snd (init_data (sample_env 100 0) empty_db))"
  by (simp_all add: login_def run_init find_one_def new_user_def run_parse insert_one_def
        split_at_head_def Let_def sample_env_simps oid_of_nat_200 float_lit_zero
        del: first_char.simps)

lemma run_scan:
  "users sample_run
   = [(''000000000000000000000200'',
       \<lparr>User.studentId = ''ST'' @ str_int (randint 10000 99999 5),
        User.name = str_title sample_lib ''ana'',
        User.email = ''ana@uni.pe'',
        User.password = ''secret'',
        User.avatar = str_upper sample_lib ''a'',
        User.points = 17,
        User.category = Clasico,
        User.pointsHistory =
          [\<lparr>PointsHistoryItem.date = 300,
            PointsHistoryItem.points = 17,
            PointsHistoryItem.description = ''Reciclaje en Contenedor A - Biblioteca'',
            PointsHistoryItem.type = ''earned''\<rparr>],
        User.recycledKg = Finite (1914029841632461 / 1125899906842624),
        User.createdAt = 200\<rparr>)]"
proof -
  have status: "Container.status (hd (containers_data (sample_env 100 0))) = ''operational''"
    "Container.name (hd (containers_data (sample_env 100 0))) = ''Contenedor A - Biblioteca''"
    by (simp_all add: containers_data_def)
  have found: "find_one (by_id ''000000000000000000000200'')
     [(''000000000000000000000200'', u)] = Some (''000000000000000000000200'', u)" for u :: User
    by (simp add: find_one_def by_id_def)
  have p: "randint 10 50 7 = 17" "get_category_from_points 17 = Clasico"
    by (simp_all add: randint_def get_category_from_points_def)
  have kg: "int_times_float 17 (float_lit (1 / 10))
              = Inr (Finite (1914029841632461 / 1125899906842624))"
    using int_times_float_points [of 17 "float_lit (1 / 10)"] by (simp add: kg_17)
  show ?thesis
    by (simp add: sample_run_def scan_qr_def resolve_container_def sample_lib_simps run_parse
          run_login run_init status found Let_def sample_env_simps p kg sum_0_17 by_id_def
          float_lit_zero del: float_add.simps)
qed

theorem stored_category_is_function_of_points_witness:
  "reachable sample_lib sample_run
   \<and> hd (users sample_run) \<in> set (users sample_run)
   \<and> User.points (snd (hd (users sample_run))) = 17
   \<and> User.category (snd (hd (users sample_run))) = Clasico
   \<and> get_category_from_points 17 = Clasico"
proof -
  have c1: "reachable sample_lib sample_run"
    unfolding sample_run_def
    by (intro reachable_scan reachable_login reachable_init reachable_empty)
  have c2: "hd (users sample_run) \<in> set (users sample_run)"
    by (simp add: run_scan)
  have c3: "User.points (snd (hd (users sample_run))) = 17"
    by (simp add: run_scan)
  have c4: "User.category (snd (hd (users sample_run))) = Clasico"
    by (simp add: run_scan)
  have c5: "get_category_from_points 17 = Clasico"
    using stored_category_is_function_of_points [OF c1 c2] c3 c4 by simp
  show ?thesis
    by (intro conjI c1 c2 c3 c4 c5)
qed

text \<open>
  The points the handlers pass to \<open>get_category_from_points\<close> are never negative: a
  redemption is refused unless the points cover the cost, and a scan adds at least 10.
\<close>

lemma find_one_in_set: "find_one query coll = Some d \<Longrightarrow> d \<in> set coll"
  using find_one_split [of query coll d] by auto

lemma nonneg_login:
  "points_nonneg db \<Longrightarrow> points_nonneg (snd (login lib env credentials db))"
  using users_login [of lib env credentials db]
  by (auto simp: points_nonneg_def dest: new_user_consistent)

lemma nonneg_register:
  "points_nonneg db \<Longrightarrow> points_nonneg (snd (register lib env credentials db))"
  using users_register [of lib env credentials db]
  by (auto simp: points_nonneg_def dest: new_user_consistent)

lemma nonneg_redeem:
  "points_nonneg db \<Longrightarrow> points_nonneg (snd (redeem_reward lib env request db))"
  by (simp add: redeem_reward_def points_nonneg_def Let_def list_all_update_one
           split: option.splits)

lemma nonneg_scan:
  assumes "points_nonneg db"
  shows "points_nonneg (snd (scan_qr lib env request db))"
proof -
  have "0 \<le> User.points (snd udoc) + randint 10 50 (entropy env)"
    if "find_one (by_id uid) (users db) = Some udoc" for uid udoc
  proof -
    from find_one_in_set [OF that] assms have "0 \<le> User.points (snd udoc)"
      by (simp add: points_nonneg_def list_all_iff)
    with randint_bounds [of 10 50 "entropy env"] show ?thesis by simp
  qed
  with assms show ?thesis
    by (auto simp: scan_qr_def points_nonneg_def Let_def
             split: option.splits sum.splits intro!: list_all_update_one)
qed

lemma nonneg_init:
  "points_nonneg db \<Longrightarrow> points_nonneg (snd (init_data env db))"
  by (simp add: init_data_def points_nonneg_def Let_def)

lemma reachable_points_nonneg: "reachable lib db \<Longrightarrow> points_nonneg db"
proof (induction rule: reachable.induct)
  case reachable_empty
  show ?case by (simp add: points_nonneg_def empty_db_def)
qed (simp_all add: nonneg_login nonneg_register nonneg_redeem nonneg_scan nonneg_init)

section \<open>Redemption\<close>

text \<open>
  C3. When the user exists, the reward exists, \<open>user.points \<ge> reward.pointsCost\<close> and the
  index of the user's category in the ladder is at least the index of the reward's, the
  redemption succeeds: the response reports the new points \<open>points - pointsCost\<close> and the
  category recomputed from them; in the store exactly the user's document changes, to these
  points and this category and with exactly one entry appended to \<open>pointsHistory\<close>, of
  points \<open>- pointsCost\<close> and type \<open>redeemed\<close>; containers, rewards and scans are untouched.
\<close>

theorem redeem_reward_success:
  assumes "ObjectId lib (RedeemRequest.userId request) = Some uid"
    and "find_one (by_id uid) (users db) = Some udoc"
    and "ObjectId lib (rewardId request) = Some rid"
    and "find_one (by_id rid) (database.rewards db) = Some rdoc"
    and "User.points (snd udoc) \<ge> pointsCost (snd rdoc)"
    and "list_index cat_order (User.category (snd udoc)) = Some user_idx"
    and "list_index cat_order (Reward.category (snd rdoc)) = Some reward_idx"
    and "user_idx \<ge> reward_idx"
  shows "\<exists>item pre post.
      fst (redeem_reward lib env request db) =
        Inr \<lparr>RedeemResponse.success = True,
             RedeemResponse.message = ''Recompensa canjeada exitosamente'',
             RedeemResponse.newPoints = User.points (snd udoc) - pointsCost (snd rdoc),
             RedeemResponse.newCategory =
               get_category_from_points (User.points (snd udoc) - pointsCost (snd rdoc))\<rparr>
    \<and> users db = pre @ udoc # post
    \<and> users (snd (redeem_reward lib env request db)) =
        pre @ (fst udoc,
               (snd udoc)\<lparr>User.points := User.points (snd udoc) - pointsCost (snd rdoc),
                          User.category :=
                            get_category_from_points
                              (User.points (snd udoc) - pointsCost (snd rdoc)),
                          User.pointsHistory := User.pointsHistory (snd udoc) @ [item]\<rparr>) # post
    \<and> PointsHistoryItem.points item = - pointsCost (snd rdoc)
    \<and> PointsHistoryItem.type item = ''redeemed''
    \<and> database.containers (snd (redeem_reward lib env request db)) = database.containers db
    \<and> database.rewards (snd (redeem_reward lib env request db)) = database.rewards db
    \<and> scans (snd (redeem_reward lib env request db)) = scans db"
proof -
  define item where "item =
     \<lparr>PointsHistoryItem.date = utcnow env 0,
      PointsHistoryItem.points = - pointsCost (snd rdoc),
      PointsHistoryItem.description = ''Canjeado: '' @ title (snd rdoc),
      PointsHistoryItem.type = ''redeemed''\<rparr>"
  from find_one_split [OF assms(2)] obtain pre post where
    split: "users db = pre @ udoc # post" "\<forall>x \<in> set pre. \<not> by_id uid x" "by_id uid udoc"
    by blast
  have enough: "\<not> User.points (snd udoc) < pointsCost (snd rdoc)" "\<not> user_idx < reward_idx"
    using assms(5,8) by simp_all
  have result: "fst (redeem_reward lib env request db) =
        Inr \<lparr>RedeemResponse.success = True,
             RedeemResponse.message = ''Recompensa canjeada exitosamente'',
             RedeemResponse.newPoints = User.points (snd udoc) - pointsCost (snd rdoc),
             RedeemResponse.newCategory =
               get_category_from_points (User.points (snd udoc) - pointsCost (snd rdoc))\<rparr>"
    using assms(1-4,6,7) enough by (simp add: redeem_reward_def Let_def)
  have users': "users (snd (redeem_reward lib env request db)) =
        pre @ (fst udoc,
               (snd udoc)\<lparr>User.points := User.points (snd udoc) - pointsCost (snd rdoc),
                          User.category :=
                            get_category_from_points
                              (User.points (snd udoc) - pointsCost (snd rdoc)),
                          User.pointsHistory := User.pointsHistory (snd udoc) @ [item]\<rparr>) # post"
    using assms(1-4,6,7) enough split(2,3)
    by (simp add: redeem_reward_def Let_def item_def split(1) update_one_split)
  have rest: "database.containers (snd (redeem_reward lib env request db)) = database.containers db"
    "database.rewards (snd (redeem_reward lib env request db)) = database.rewards db"
    "scans (snd (redeem_reward lib env request db)) = scans db"
    using assms(1-4,6,7) enough by (simp_all add: redeem_reward_def Let_def)
  have item: "PointsHistoryItem.points item = - pointsCost (snd rdoc)"
    "PointsHistoryItem.type item = ''redeemed''"
    by (simp_all add: item_def)
  show ?thesis
    using result split(1) users' rest item
    by (intro exI [of _ item] exI [of _ pre] exI [of _ post]) simp
qed

theorem redeem_reward_success_witness:
  "ObjectId sample_lib ''000000000000000000000001'' = Some ''000000000000000000000001''
   \<and> find_one (by_id ''000000000000000000000001'') (users sample_db)
       = Some (''000000000000000000000001'', sample_user)
   \<and> ObjectId sample_lib ''000000000000000000000004'' = Some ''000000000000000000000004''
   \<and> find_one (by_id ''000000000000000000000004'') (database.rewards sample_db)
       = Some (hd (database.rewards sample_db))
   \<and> User.points sample_user = 350
   \<and> pointsCost (snd (hd (database.rewards sample_db))) = 250
   \<and> list_index cat_order (User.category sample_user) = Some 2
   \<and> list_index cat_order (Reward.category (snd (hd (database.rewards sample_db)))) = Some 2
   \<and> redeem_reward sample_lib (sample_env 400 0)
        \<lparr>RedeemRequest.userId = ''000000000000000000000001'',
         rewardId = ''000000000000000000000004''\<rparr> sample_db
      = (Inr \<lparr>RedeemResponse.success = True,
               RedeemResponse.message = ''Recompensa canjeada exitosamente'',
               RedeemResponse.newPoints = 100,
               RedeemResponse.newCategory = ''Plata''\<rparr>,
         sample_db\<lparr>users :=
           [(''000000000000000000000001'',
             sample_user\<lparr>User.points := 100, User.category := ''Plata'',
               User.pointsHistory :=
                 [\<lparr>PointsHistoryItem.date = 400,
                   PointsHistoryItem.points = - 250,
                   PointsHistoryItem.description = ''Canjeado: Almuerzo Gratis'',
                   PointsHistoryItem.type = ''redeemed''\<rparr>]\<rparr>)]\<rparr>)"
proof -
  let ?request = "\<lparr>RedeemRequest.userId = ''000000000000000000000001'',
                   rewardId = ''000000000000000000000004''\<rparr>"
  have c1: "ObjectId sample_lib ''000000000000000000000001'' = Some ''000000000000000000000001''"
    by (simp add: sample_eval)
  have c2: "find_one (by_id ''000000000000000000000001'') (users sample_db)
              = Some (''000000000000000000000001'', sample_user)"
    by (simp add: sample_eval)
  have c3: "ObjectId sample_lib ''000000000000000000000004'' = Some ''000000000000000000000004''"
    by (simp add: sample_eval)
  have c4: "find_one (by_id ''000000000000000000000004'') (database.rewards sample_db)
              = Some (hd (database.rewards sample_db))"
    by (simp add: sample_eval)
  have c5: "User.points sample_user = 350"
    by (simp add: sample_user_def)
  have c6: "pointsCost (snd (hd (database.rewards sample_db))) = 250"
    by (simp add: sample_db_def)
  have c7: "list_index cat_order (User.category sample_user) = Some 2"
    by (simp add: sample_user_def cat_order_def Clasico_def a_acute_def)
  have c8: "list_index cat_order (Reward.category (snd (hd (database.rewards sample_db)))) = Some 2"
    by (simp add: sample_db_def cat_order_def Clasico_def a_acute_def)
  have c9: "redeem_reward sample_lib (sample_env 400 0) ?request sample_db
      = (Inr \<lparr>RedeemResponse.success = True,
               RedeemResponse.message = ''Recompensa canjeada exitosamente'',
               RedeemResponse.newPoints = 100,
               RedeemResponse.newCategory = ''Plata''\<rparr>,
         sample_db\<lparr>users :=
           [(''000000000000000000000001'',
             sample_user\<lparr>User.points := 100, User.category := ''Plata'',
               User.pointsHistory :=
                 [\<lparr>PointsHistoryItem.date = 400,
                   PointsHistoryItem.points = - 250,
                   PointsHistoryItem.description = ''Canjeado: Almuerzo Gratis'',
                   PointsHistoryItem.type = ''redeemed''\<rparr>]\<rparr>)]\<rparr>)"
    by (simp add: redeem_reward_def Let_def c1 c2 c3 c4 c5 c6 c7 c8 get_category_from_points_def)
       (simp add: sample_env_def sample_db_def sample_user_def by_id_def)
  have h1: "ObjectId sample_lib (RedeemRequest.userId ?request) = Some ''000000000000000000000001''"
    using c1 by simp
  have h3: "ObjectId sample_lib (rewardId ?request) = Some ''000000000000000000000004''"
    using c3 by simp
  have h5: "User.points (snd (''000000000000000000000001'', sample_user))
              \<ge> pointsCost (snd (hd (database.rewards sample_db)))"
    by (simp add: c5 c6)
  have h6: "list_index cat_order (User.category (snd (''000000000000000000000001'', sample_user)))
              = Some 2"
    using c7 by simp
  have h8: "(2::nat) \<ge> 2" by simp
  show ?thesis
    using redeem_reward_success [OF h1 c2 h3 c4 h5 h6 c8 h8, of "sample_env 400 0"]
    by (intro conjI c1 c2 c3 c4 c5 c6 c7 c8 c9)
qed

text \<open>
  C4, as the code has it. A redemption fails exactly when a precondition is violated, and
  every failure returns the store unchanged. The error is decided in the order of the
  handler: a \<open>userId\<close> that is not a well-formed identifier gives 400 with the text of the
  identifier error; a well-formed \<open>userId\<close> of no user gives 404 "Usuario no encontrado";
  then the same two for \<open>rewardId\<close>, with 404 "Recompensa no encontrada"; then
  \<open>user.points < reward.pointsCost\<close> gives 400 "Puntos insuficientes"; then a stored category
  outside the ladder gives 400 with the text of the lookup error; then a user tier index
  below the reward's gives 400 "Categoria insuficiente", the points being sufficient.
\<close>

theorem redeem_reward_failures:
  "(ObjectId lib (RedeemRequest.userId request) = None \<longrightarrow>
      fst (redeem_reward lib env request db)
        = Inl (HTTPException 400 (Str (InvalidId (RedeemRequest.userId request)))))
   \<and> (ObjectId lib (RedeemRequest.userId request) = Some uid
        \<and> find_one (by_id uid) (users db) = None \<longrightarrow>
      fst (redeem_reward lib env request db)
        = Inl (HTTPException 404 (Text ''Usuario no encontrado'')))
   \<and> (ObjectId lib (RedeemRequest.userId request) = Some uid
        \<and> find_one (by_id uid) (users db) = Some udoc
        \<and> ObjectId lib (rewardId request) = None \<longrightarrow>
      fst (redeem_reward lib env request db)
        = Inl (HTTPException 400 (Str (InvalidId (rewardId request)))))
   \<and> (ObjectId lib (RedeemRequest.userId request) = Some uid
        \<and> find_one (by_id uid) (users db) = Some udoc
        \<and> ObjectId lib (rewardId request) = Some rid
        \<and> find_one (by_id rid) (database.rewards db) = None \<longrightarrow>
      fst (redeem_reward lib env request db)
        = Inl (HTTPException 404 (Text ''Recompensa no encontrada'')))
   \<and> (ObjectId lib (RedeemRequest.userId request) = Some uid
        \<and> find_one (by_id uid) (users db) = Some udoc
        \<and> ObjectId lib (rewardId request) = Some rid
        \<and> find_one (by_id rid) (database.rewards db) = Some rdoc \<longrightarrow>
      (User.points (snd udoc) < pointsCost (snd rdoc) \<longrightarrow>
         fst (redeem_reward lib env request db)
           = Inl (HTTPException 400 (Text ''Puntos insuficientes'')))
      \<and> (pointsCost (snd rdoc) \<le> User.points (snd udoc)
           \<and> list_index cat_order (User.category (snd udoc)) = None \<longrightarrow>
         fst (redeem_reward lib env request db)
           = Inl (HTTPException 400 (Str (ValueError (User.category (snd udoc))))))
      \<and> (pointsCost (snd rdoc) \<le> User.points (snd udoc)
           \<and> list_index cat_order (User.category (snd udoc)) = Some user_idx
           \<and> list_index cat_order (Reward.category (snd rdoc)) = None \<longrightarrow>
         fst (redeem_reward lib env request db)
           = Inl (HTTPException 400 (Str (ValueError (Reward.category (snd rdoc))))))
      \<and> (pointsCost (snd rdoc) \<le> User.points (snd udoc)
           \<and> list_index cat_order (User.category (snd udoc)) = Some user_idx
           \<and> list_index cat_order (Reward.category (snd rdoc)) = Some reward_idx
           \<and> user_idx < reward_idx \<longrightarrow>
         fst (redeem_reward lib env request db)
           = Inl (HTTPException 400 (Text (''Categor'' @ i_acute @ ''a insuficiente'')))))
   \<and> (isl (fst (redeem_reward lib env request db)) \<longleftrightarrow> \<not> redeem_preconditions lib request db)
   \<and> (isl (fst (redeem_reward lib env request db)) \<longrightarrow>
        snd (redeem_reward lib env request db) = db)"
proof -
  have iff: "isl (fst (redeem_reward lib env request db)) \<longleftrightarrow> \<not> redeem_preconditions lib request db"
    by (auto simp: redeem_reward_def redeem_preconditions_def Let_def split: option.splits)
  have unchanged: "isl (fst (redeem_reward lib env request db)) \<longrightarrow>
        snd (redeem_reward lib env request db) = db"
    by (auto simp: redeem_reward_def Let_def split: option.splits)
  show ?thesis
    by (intro conjI iff unchanged) (simp_all add: redeem_reward_def Let_def)
qed

theorem redeem_reward_failures_witness:
  "ObjectId sample_lib ''000000000000000000000009'' = Some ''000000000000000000000009''
   \<and> find_one (by_id ''000000000000000000000009'') (users sample_db) = None
   \<and> redeem_reward sample_lib (sample_env 400 0)
        \<lparr>RedeemRequest.userId = ''000000000000000000000009'',
         rewardId = ''000000000000000000000004''\<rparr> sample_db
       = (Inl (HTTPException 404 (Text ''Usuario no encontrado'')), sample_db)
   \<and> ObjectId sample_lib ''000000000000000000000001'' = Some ''000000000000000000000001''
   \<and> find_one (by_id ''000000000000000000000001'') (users sample_db)
       = Some (''000000000000000000000001'', sample_user)
   \<and> ObjectId sample_lib ''000000000000000000000005'' = Some ''000000000000000000000005''
   \<and> find_one (by_id ''000000000000000000000005'') (database.rewards sample_db)
       = Some (database.rewards sample_db ! 1)
   \<and> User.points sample_user < pointsCost (snd (database.rewards sample_db ! 1))
   \<and> redeem_reward sample_lib (sample_env 400 0)
        \<lparr>RedeemRequest.userId = ''000000000000000000000001'',
         rewardId = ''000000000000000000000005''\<rparr> sample_db
       = (Inl (HTTPException 400 (Text ''Puntos insuficientes'')), sample_db)
   \<and> ObjectId sample_lib ''000000000000000000000006'' = Some ''000000000000000000000006''
   \<and> find_one (by_id ''000000000000000000000006'') (database.rewards sample_db)
       = Some (database.rewards sample_db ! 2)
   \<and> pointsCost (snd (database.rewards sample_db ! 2)) \<le> User.points sample_user
   \<and> list_index cat_order (User.category sample_user) = Some 2
   \<and> list_index cat_order (Reward.category (snd (database.rewards sample_db ! 2))) = Some 3
   \<and> (2::nat) < 3
   \<and> redeem_reward sample_lib (sample_env 400 0)
        \<lparr>RedeemRequest.userId = ''000000000000000000000001'',
         rewardId = ''000000000000000000000006''\<rparr> sample_db
       = (Inl (HTTPException 400 (Text (''Categor'' @ i_acute @ ''a insuficiente''))), sample_db)
   \<and> \<not> redeem_preconditions sample_lib
        \<lparr>RedeemRequest.userId = ''000000000000000000000001'',
         rewardId = ''000000000000000000000006''\<rparr> sample_db"
proof -
  let ?absent = "\<lparr>RedeemRequest.userId = ''000000000000000000000009'',
                  rewardId = ''000000000000000000000004''\<rparr>"
  let ?costly = "\<lparr>RedeemRequest.userId = ''000000000000000000000001'',
                  rewardId = ''000000000000000000000005''\<rparr>"
  let ?tier = "\<lparr>RedeemRequest.userId = ''000000000000000000000001'',
                rewardId = ''000000000000000000000006''\<rparr>"
  have u9: "ObjectId sample_lib ''000000000000000000000009'' = Some ''000000000000000000000009''"
    by (simp add: sample_eval)
  have n9: "find_one (by_id ''000000000000000000000009'') (users sample_db) = None"
    by (simp add: sample_eval)
  have u1: "ObjectId sample_lib ''000000000000000000000001'' = Some ''000000000000000000000001''"
    by (simp add: sample_eval)
  have f1: "find_one (by_id ''000000000000000000000001'') (users sample_db)
              = Some (''000000000000000000000001'', sample_user)"
    by (simp add: sample_eval)
  have r5: "ObjectId sample_lib ''000000000000000000000005'' = Some ''000000000000000000000005''"
    by (simp add: sample_eval)
  have f5: "find_one (by_id ''000000000000000000000005'') (database.rewards sample_db)
              = Some (database.rewards sample_db ! 1)"
    by (simp add: sample_eval)
  have lt5: "User.points sample_user < pointsCost (snd (database.rewards sample_db ! 1))"
    by (simp add: sample_eval)
  have r6: "ObjectId sample_lib ''000000000000000000000006'' = Some ''000000000000000000000006''"
    by (simp add: sample_eval)
  have f6: "find_one (by_id ''000000000000000000000006'') (database.rewards sample_db)
              = Some (database.rewards sample_db ! 2)"
    by (simp add: sample_eval)
  have le6: "pointsCost (snd (database.rewards sample_db ! 2)) \<le> User.points sample_user"
    by (simp add: sample_eval)
  have iu: "list_index cat_order (User.category sample_user) = Some 2"
    by (simp add: sample_user_def cat_order_def Clasico_def a_acute_def)
  have ir: "list_index cat_order (Reward.category (snd (database.rewards sample_db ! 2))) = Some 3"
    by (simp add: sample_db_def cat_order_def Clasico_def a_acute_def)
  have lt: "(2::nat) < 3" by simp
  note absent = redeem_reward_failures
    [where lib = sample_lib and env = "sample_env 400 0" and request = ?absent
       and db = sample_db and uid = "''000000000000000000000009''"]
  note costly = redeem_reward_failures
    [where lib = sample_lib and env = "sample_env 400 0" and request = ?costly
       and db = sample_db and uid = "''000000000000000000000001''"
       and udoc = "(''000000000000000000000001'', sample_user)"
       and rid = "''000000000000000000000005''" and rdoc = "database.rewards sample_db ! 1"]
  note tier = redeem_reward_failures
    [where lib = sample_lib and env = "sample_env 400 0" and request = ?tier
       and db = sample_db and uid = "''000000000000000000000001''"
       and udoc = "(''000000000000000000000001'', sample_user)"
       and rid = "''000000000000000000000006''" and rdoc = "database.rewards sample_db ! 2"
       and user_idx = 2 and reward_idx = 3]
  have e9: "fst (redeem_reward sample_lib (sample_env 400 0) ?absent sample_db)
              = Inl (HTTPException 404 (Text ''Usuario no encontrado''))"
    using absent u9 n9 by simp
  have e5: "fst (redeem_reward sample_lib (sample_env 400 0) ?costly sample_db)
              = Inl (HTTPException 400 (Text ''Puntos insuficientes''))"
    using costly u1 f1 r5 f5 lt5 by simp
  have e6: "fst (redeem_reward sample_lib (sample_env 400 0) ?tier sample_db)
              = Inl (HTTPException 400 (Text (''Categor'' @ i_acute @ ''a insuficiente'')))"
    using tier u1 f1 r6 f6 le6 iu ir lt by simp
  have s9: "snd (redeem_reward sample_lib (sample_env 400 0) ?absent sample_db) = sample_db"
    using absent e9 by simp
  have s5: "snd (redeem_reward sample_lib (sample_env 400 0) ?costly sample_db) = sample_db"
    using costly e5 by simp
  have s6: "snd (redeem_reward sample_lib (sample_env 400 0) ?tier sample_db) = sample_db"
    using tier e6 by simp
  have p6: "\<not> redeem_preconditions sample_lib ?tier sample_db"
    using tier e6 by simp
  have c9: "redeem_reward sample_lib (sample_env 400 0) ?absent sample_db
       = (Inl (HTTPException 404 (Text ''Usuario no encontrado'')), sample_db)"
    using e9 s9 by (simp add: prod_eq_iff)
  have c5: "redeem_reward sample_lib (sample_env 400 0) ?costly sample_db
       = (Inl (HTTPException 400 (Text ''Puntos insuficientes'')), sample_db)"
    using e5 s5 by (simp add: prod_eq_iff)
  have c6: "redeem_reward sample_lib (sample_env 400 0) ?tier sample_db
       = (Inl (HTTPException 400 (Text (''Categor'' @ i_acute @ ''a insuficiente''))), sample_db)"
    using e6 s6 by (simp add: prod_eq_iff)
  show ?thesis
    by (intro conjI u9 n9 c9 u1 f1 r5 f5 lt5 c5 r6 f6 le6 iu ir lt c6 p6)
qed

text \<open>
  The claim C4 as stated fails for a malformed \<open>userId\<close>: no user exists for \<open>abc\<close>, the
  preconditions are violated, and the error is 400 with the identifier error, none of the
  four named errors.
\<close>

theorem redeem_reward_malformed_user_counterexample:
  "ObjectId sample_lib ''abc'' = None
   \<and> \<not> redeem_preconditions sample_lib
        \<lparr>RedeemRequest.userId = ''abc'', rewardId = ''000000000000000000000004''\<rparr> sample_db
   \<and> redeem_reward sample_lib (sample_env 400 0)
        \<lparr>RedeemRequest.userId = ''abc'', rewardId = ''000000000000000000000004''\<rparr> sample_db
       = (Inl (HTTPException 400 (Str (InvalidId ''abc''))), sample_db)
   \<and> Inl (HTTPException 400 (Str (InvalidId ''abc'')))
       \<noteq> (Inl (HTTPException 404 (Text ''Usuario no encontrado'')) :: failure + RedeemResponse)
   \<and> Inl (HTTPException 400 (Str (InvalidId ''abc'')))
       \<noteq> (Inl (HTTPException 404 (Text ''Recompensa no encontrada'')) :: failure + RedeemResponse)
   \<and> Inl (HTTPException 400 (Str (InvalidId ''abc'')))
       \<noteq> (Inl (HTTPException 400 (Text ''Puntos insuficientes'')) :: failure + RedeemResponse)
   \<and> Inl (HTTPException 400 (Str (InvalidId ''abc'')))
       \<noteq> (Inl (HTTPException 400 (Text (''Categor'' @ i_acute @ ''a insuficiente'')))
            :: failure + RedeemResponse)"
  by (simp add: redeem_reward_def redeem_preconditions_def sample_lib_simps sample_parse)

section \<open>Scan\<close>

lemma containers_unchanged:
  "database.containers (snd (login lib env credentials db)) = database.containers db"
  "database.containers (snd (register lib env credentials db)) = database.containers db"
  "database.containers (snd (redeem_reward lib env redeem db)) = database.containers db"
  "database.containers (snd (scan_qr lib env scan db)) = database.containers db"
  by (simp_all add: login_def register_def redeem_reward_def scan_qr_def Let_def
        split: option.splits sum.splits)

text \<open>
  C5, as the code has it. When the QR payload resolves to a container whose status is
  \<open>operational\<close> and the user exists, the scan succeeds with some \<open>pointsEarned = p\<close>,
  \<open>10 \<le> p \<le> 50\<close>: exactly the user's document changes, its points grow by \<open>p\<close>, its category
  is recomputed, exactly one entry of points \<open>p > 0\<close> and type \<open>earned\<close> is appended to
  \<open>pointsHistory\<close>, and exactly one record with the request's \<open>userId\<close>, the container's
  identifier, \<open>pointsEarned = p\<close> and a timestamp is appended to the scans. The response
  reports \<open>kgRecycled\<close>, the double product \<^verbatim>\<open>p * 0.1\<close>, a finite double within \<open>2^(-50)\<close> of
  \<open>p \<times> 0.1\<close>, and the stored \<open>recycledKg\<close> becomes the double sum of its old value and
  \<open>kgRecycled\<close>; the stored increase is \<open>p \<times> 0.1\<close> up to these two roundings, not exactly.
\<close>

theorem scan_qr_awards_points:
  assumes "resolve_container lib (qrCode request) db = Some cdoc"
    and "Container.status (snd cdoc) = ''operational''"
    and "ObjectId lib (ScanQRRequest.userId request) = Some uid"
    and "find_one (by_id uid) (users db) = Some udoc"
  shows "\<exists>p kg k item pre post t.
      10 \<le> p \<and> p \<le> 50
    \<and> kg = float_mul (Finite (of_int p)) (float_lit (1 / 10))
    \<and> kg = Finite k
    \<and> \<bar>k - of_int p / 10\<bar> \<le> 2 powi (- 50)
    \<and> fst (scan_qr lib env request db) =
        Inr \<lparr>ScanResponse.success = True,
             ScanResponse.pointsEarned = p,
             ScanResponse.newPoints = User.points (snd udoc) + p,
             ScanResponse.newCategory = get_category_from_points (User.points (snd udoc) + p),
             ScanResponse.containerName = Container.name (snd cdoc),
             ScanResponse.kgRecycled = kg\<rparr>
    \<and> users db = pre @ udoc # post
    \<and> users (snd (scan_qr lib env request db)) =
        pre @ (fst udoc,
               (snd udoc)\<lparr>User.points := User.points (snd udoc) + p,
                          User.category := get_category_from_points (User.points (snd udoc) + p),
                          User.recycledKg := float_add (recycledKg (snd udoc)) kg,
                          User.pointsHistory := User.pointsHistory (snd udoc) @ [item]\<rparr>) # post
    \<and> PointsHistoryItem.points item = p
    \<and> 0 < PointsHistoryItem.points item
    \<and> PointsHistoryItem.type item = ''earned''
    \<and> scans (snd (scan_qr lib env request db)) =
        scans db @ [(inserted_id env 0,
                     \<lparr>QRScan.userId = ScanQRRequest.userId request,
                      QRScan.containerId = str_oid lib (fst cdoc),
                      QRScan.pointsEarned = p,
                      QRScan.timestamp = t\<rparr>)]
    \<and> database.containers (snd (scan_qr lib env request db)) = database.containers db
    \<and> database.rewards (snd (scan_qr lib env request db)) = database.rewards db"
proof -
  define p where "p = randint 10 50 (entropy env)"
  define kg where "kg = float_mul (Finite (of_int p)) (float_lit (1 / 10))"
  define item where "item =
     \<lparr>PointsHistoryItem.date = utcnow env 0,
      PointsHistoryItem.points = p,
      PointsHistoryItem.description = ''Reciclaje en '' @ Container.name (snd cdoc),
      PointsHistoryItem.type = ''earned''\<rparr>"
  have bounds: "10 \<le> p" "p \<le> 50"
    using randint_bounds [of 10 50 "entropy env"] by (simp_all add: p_def)
  have product: "int_times_float (randint 10 50 (entropy env)) (float_lit (1 / 10)) = Inr kg"
    using int_times_float_points [OF bounds] by (simp add: kg_def p_def)
  from kg_bound [OF bounds] obtain k where
    k: "kg = Finite k" "\<bar>k - of_int p / 10\<bar> \<le> 2 powi (- 50)"
    unfolding kg_def by blast
  from find_one_split [OF assms(4)] obtain pre post where
    split: "users db = pre @ udoc # post" "\<forall>x \<in> set pre. \<not> by_id uid x" "by_id uid udoc"
    by blast
  have result: "fst (scan_qr lib env request db) =
        Inr \<lparr>ScanResponse.success = True,
             ScanResponse.pointsEarned = p,
             ScanResponse.newPoints = User.points (snd udoc) + p,
             ScanResponse.newCategory = get_category_from_points (User.points (snd udoc) + p),
             ScanResponse.containerName = Container.name (snd cdoc),
             ScanResponse.kgRecycled = kg\<rparr>"
    using assms by (simp add: scan_qr_def Let_def product) (simp add: p_def)
  have users': "users (snd (scan_qr lib env request db)) =
        pre @ (fst udoc,
               (snd udoc)\<lparr>User.points := User.points (snd udoc) + p,
                          User.category := get_category_from_points (User.points (snd udoc) + p),
                          User.recycledKg := float_add (recycledKg (snd udoc)) kg,
                          User.pointsHistory := User.pointsHistory (snd udoc) @ [item]\<rparr>) # post"
    using assms split(2,3)
    by (simp add: scan_qr_def Let_def product split(1) update_one_split)
       (simp add: p_def item_def)
  have scans': "scans (snd (scan_qr lib env request db)) =
        scans db @ [(inserted_id env 0,
                     \<lparr>QRScan.userId = ScanQRRequest.userId request,
                      QRScan.containerId = str_oid lib (fst cdoc),
                      QRScan.pointsEarned = p,
                      QRScan.timestamp = utcnow env 1\<rparr>)]"
    using assms by (simp add: scan_qr_def Let_def product insert_one_def) (simp add: p_def)
  have rest: "database.containers (snd (scan_qr lib env request db)) = database.containers db"
    "database.rewards (snd (scan_qr lib env request db)) = database.rewards db"
    using assms by (simp_all add: scan_qr_def Let_def product)
  have item: "PointsHistoryItem.points item = p" "PointsHistoryItem.type item = ''earned''"
    by (simp_all add: item_def)
  have positive: "0 < PointsHistoryItem.points item"
    using bounds by (simp add: item)
  show ?thesis
    by (intro exI [of _ p] exI [of _ kg] exI [of _ k] exI [of _ item] exI [of _ pre]
          exI [of _ post] exI [of _ "utcnow env 1"] conjI
          bounds kg_def k result split(1) users' item positive scans' rest)
qed

theorem scan_qr_awards_points_witness:
  "resolve_container sample_lib ''Contenedor A - Biblioteca'' sample_db
     = Some (hd (database.containers sample_db))
   \<and> Container.status (snd (hd (database.containers sample_db))) = ''operational''
   \<and> ObjectId sample_lib ''000000000000000000000001'' = Some ''000000000000000000000001''
   \<and> find_one (by_id ''000000000000000000000001'') (users sample_db)
       = Some (''000000000000000000000001'', sample_user)
   \<and> fst (scan_qr sample_lib (sample_env 300 7)
         \<lparr>ScanQRRequest.userId = ''000000000000000000000001'',
          qrCode = ''Contenedor A - Biblioteca''\<rparr> sample_db)
       = Inr \<lparr>ScanResponse.success = True,
              ScanResponse.pointsEarned = 17,
              ScanResponse.newPoints = 367,
              ScanResponse.newCategory = ''Oro'',
              ScanResponse.containerName = ''Contenedor A - Biblioteca'',
              ScanResponse.kgRecycled = Finite (1914029841632461 / 1125899906842624)\<rparr>
   \<and> scans (snd (scan_qr sample_lib (sample_env 300 7)
         \<lparr>ScanQRRequest.userId = ''000000000000000000000001'',
          qrCode = ''Contenedor A - Biblioteca''\<rparr> sample_db))
       = [(inserted_id (sample_env 300 7) 0,
           \<lparr>QRScan.userId = ''000000000000000000000001'',
            QRScan.containerId = ''000000000000000000000002'',
            QRScan.pointsEarned = 17,
            QRScan.timestamp = 301\<rparr>)]"
proof -
  let ?request = "\<lparr>ScanQRRequest.userId = ''000000000000000000000001'',
                   qrCode = ''Contenedor A - Biblioteca''\<rparr>"
  have c1: "resolve_container sample_lib ''Contenedor A - Biblioteca'' sample_db
              = Some (hd (database.containers sample_db))"
    by (simp add: sample_eval)
  have c2: "Container.status (snd (hd (database.containers sample_db))) = ''operational''"
    by (simp add: sample_eval)
  have c3: "ObjectId sample_lib ''000000000000000000000001'' = Some ''000000000000000000000001''"
    by (simp add: sample_eval)
  have c4: "find_one (by_id ''000000000000000000000001'') (users sample_db)
              = Some (''000000000000000000000001'', sample_user)"
    by (simp add: sample_eval)
  have p: "randint 10 50 7 = 17"
    by (simp add: randint_def)
  have kg: "int_times_float 17 (float_lit (1 / 10))
              = Inr (Finite (1914029841632461 / 1125899906842624))"
    using int_times_float_points [of 17 "float_lit (1 / 10)"] by (simp add: kg_17)
  have c5: "fst (scan_qr sample_lib (sample_env 300 7) ?request sample_db)
       = Inr \<lparr>ScanResponse.success = True,
              ScanResponse.pointsEarned = 17,
              ScanResponse.newPoints = 367,
              ScanResponse.newCategory = ''Oro'',
              ScanResponse.containerName = ''Contenedor A - Biblioteca'',
              ScanResponse.kgRecycled = Finite (1914029841632461 / 1125899906842624)\<rparr>"
    by (simp add: scan_qr_def Let_def c1 c2 c3 c4 get_category_from_points_def
          sample_env_simps p kg)
       (simp add: sample_db_def sample_user_def)
  have c6: "scans (snd (scan_qr sample_lib (sample_env 300 7) ?request sample_db))
       = [(inserted_id (sample_env 300 7) 0,
           \<lparr>QRScan.userId = ''000000000000000000000001'',
            QRScan.containerId = ''000000000000000000000002'',
            QRScan.pointsEarned = 17,
            QRScan.timestamp = 301\<rparr>)]"
    by (simp add: scan_qr_def Let_def c1 c2 c3 c4 insert_one_def sample_env_simps p kg)
       (simp add: sample_db_def sample_lib_simps)
  have h1: "resolve_container sample_lib (qrCode ?request) sample_db
              = Some (hd (database.containers sample_db))"
    using c1 by simp
  have h3: "ObjectId sample_lib (ScanQRRequest.userId ?request) = Some ''000000000000000000000001''"
    using c3 by simp
  show ?thesis
    using scan_qr_awards_points [OF h1 c2 h3 c4, of "sample_env 300 7"]
    by (intro conjI c1 c2 c3 c4 c5 c6)
qed

lemma run_containers:
  "find_one (by_name ''Contenedor A - Biblioteca'') (database.containers sample_run)
     = Some (inserted_id (sample_env 100 0) 0, hd (containers_data (sample_env 100 0)))"
  by (simp add: sample_run_def containers_unchanged run_init)

lemma rescan:
  "fst (scan_qr sample_lib (sample_env 400 3)
         \<lparr>ScanQRRequest.userId = ''000000000000000000000200'',
          qrCode = ''Contenedor A - Biblioteca''\<rparr> sample_run)
     = Inr \<lparr>ScanResponse.success = True,
            ScanResponse.pointsEarned = 13,
            ScanResponse.newPoints = 30,
            ScanResponse.newCategory = Clasico,
            ScanResponse.containerName = ''Contenedor A - Biblioteca'',
            ScanResponse.kgRecycled = Finite (5854679515581645 / 4503599627370496)\<rparr>"
  "User.recycledKg (snd (hd (users sample_rescan))) = Finite 3"
proof -
  have status: "Container.status (hd (containers_data (sample_env 100 0))) = ''operational''"
    "Container.name (hd (containers_data (sample_env 100 0))) = ''Contenedor A - Biblioteca''"
    by (simp_all add: containers_data_def)
  have found: "find_one (by_id ''000000000000000000000200'')
     [(''000000000000000000000200'', u)] = Some (''000000000000000000000200'', u)" for u :: User
    by (simp add: find_one_def by_id_def)
  have p: "randint 10 50 3 = 13" "get_category_from_points 30 = Clasico"
    by (simp_all add: randint_def get_category_from_points_def)
  have kg: "int_times_float 13 (float_lit (1 / 10))
              = Inr (Finite (5854679515581645 / 4503599627370496))"
    using int_times_float_points [of 13 "float_lit (1 / 10)"] by (simp add: kg_13)
  show "fst (scan_qr sample_lib (sample_env 400 3)
         \<lparr>ScanQRRequest.userId = ''000000000000000000000200'',
          qrCode = ''Contenedor A - Biblioteca''\<rparr> sample_run)
     = Inr \<lparr>ScanResponse.success = True,
            ScanResponse.pointsEarned = 13,
            ScanResponse.newPoints = 30,
            ScanResponse.newCategory = Clasico,
            ScanResponse.containerName = ''Contenedor A - Biblioteca'',
            ScanResponse.kgRecycled = Finite (5854679515581645 / 4503599627370496)\<rparr>"
    by (simp add: scan_qr_def resolve_container_def sample_lib_simps run_parse run_containers
          run_scan status found Let_def sample_env_simps p kg)
  show "User.recycledKg (snd (hd (users sample_rescan))) = Finite 3"
    by (simp add: sample_rescan_def scan_qr_def resolve_container_def sample_lib_simps run_parse
          run_containers run_scan status found Let_def sample_env_simps p kg sum_17_13 by_id_def
          del: float_add.simps)
qed

text \<open>
  The claim C5 as stated fails on a store the API reaches: after a first scan of 17 points
  the stored \<open>recycledKg\<close> is the double \<open>1.7000000000000002\<close>; a second scan of 13 points
  stores \<open>3.0\<close>. The increase is neither \<open>13 \<times> 0.1\<close> nor the double product \<^verbatim>\<open>13 * 0.1\<close> that
  the response reports.
\<close>

theorem scan_qr_recycled_kg_counterexample:
  "reachable sample_lib sample_run
   \<and> User.recycledKg (snd (hd (users sample_run)))
       = Finite (1914029841632461 / 1125899906842624)
   \<and> fst (scan_qr sample_lib (sample_env 400 3)
         \<lparr>ScanQRRequest.userId = ''000000000000000000000200'',
          qrCode = ''Contenedor A - Biblioteca''\<rparr> sample_run)
       = Inr \<lparr>ScanResponse.success = True,
              ScanResponse.pointsEarned = 13,
              ScanResponse.newPoints = 30,
              ScanResponse.newCategory = Clasico,
              ScanResponse.containerName = ''Contenedor A - Biblioteca'',
              ScanResponse.kgRecycled = Finite (5854679515581645 / 4503599627370496)\<rparr>
   \<and> User.recycledKg (snd (hd (users sample_rescan))) = Finite 3
   \<and> (3 - 1914029841632461 / 1125899906842624 :: rat) \<noteq> 13 * (1 / 10)
   \<and> (3 - 1914029841632461 / 1125899906842624 :: rat)
       \<noteq> 5854679515581645 / 4503599627370496"
proof -
  have c1: "reachable sample_lib sample_run"
    unfolding sample_run_def
    by (intro reachable_scan reachable_login reachable_init reachable_empty)
  have c2: "User.recycledKg (snd (hd (users sample_run)))
              = Finite (1914029841632461 / 1125899906842624)"
    by (simp add: run_scan)
  have c3: "(3 - 1914029841632461 / 1125899906842624 :: rat) \<noteq> 13 * (1 / 10)"
    "(3 - 1914029841632461 / 1125899906842624 :: rat) \<noteq> 5854679515581645 / 4503599627370496"
    by simp_all
  show ?thesis
    by (intro conjI c1 c2 rescan c3)
qed

text \<open>
  C6. When the QR payload resolves to a container whose status is not \<open>operational\<close>, the
  scan is rejected with the 400 error "Contenedor en mantenimiento" and the store (users and
  scans included) is returned unchanged, so no points are awarded.
\<close>

theorem scan_qr_rejects_non_operational:
  assumes "resolve_container lib (qrCode request) db = Some cdoc"
    and "Container.status (snd cdoc) \<noteq> ''operational''"
  shows "scan_qr lib env request db =
           (Inl (HTTPException 400 (Text ''Contenedor en mantenimiento'')), db)"
  using assms by (simp add: scan_qr_def Let_def)

theorem scan_qr_rejects_non_operational_witness:
  "resolve_container sample_lib ''Contenedor C - Laboratorios'' sample_db
     = Some (database.containers sample_db ! 1)
   \<and> Container.status (snd (database.containers sample_db ! 1)) = ''maintenance''
   \<and> ''maintenance'' \<noteq> ''operational''
   \<and> scan_qr sample_lib (sample_env 300 7)
         \<lparr>ScanQRRequest.userId = ''000000000000000000000001'',
          qrCode = ''Contenedor C - Laboratorios''\<rparr> sample_db
       = (Inl (HTTPException 400 (Text ''Contenedor en mantenimiento'')), sample_db)"
proof -
  let ?request = "\<lparr>ScanQRRequest.userId = ''000000000000000000000001'',
                   qrCode = ''Contenedor C - Laboratorios''\<rparr>"
  have c1: "resolve_container sample_lib ''Contenedor C - Laboratorios'' sample_db
              = Some (database.containers sample_db ! 1)"
    by (simp add: sample_eval)
  have c2: "Container.status (snd (database.containers sample_db ! 1)) = ''maintenance''"
    by (simp add: sample_db_def)
  have c3: "''maintenance'' \<noteq> ''operational''"
    by simp
  have h1: "resolve_container sample_lib (qrCode ?request) sample_db
              = Some (database.containers sample_db ! 1)"
    using c1 by simp
  have h2: "Container.status (snd (database.containers sample_db ! 1)) \<noteq> ''operational''"
    unfolding c2 by simp
  have c4: "scan_qr sample_lib (sample_env 300 7) ?request sample_db
       = (Inl (HTTPException 400 (Text ''Contenedor en mantenimiento'')), sample_db)"
    by (rule scan_qr_rejects_non_operational [OF h1 h2])
  show ?thesis
    by (intro conjI c1 c2 c3 c4)
qed

lemma seed_names:
  "map Container.name (containers_data env) =
     [''Contenedor A - Biblioteca'',
      ''Contenedor B - Cafeter'' @ [CHR 0xC3, CHR 0xAD] @ ''a'',
      ''Contenedor C - Laboratorios'',
      ''Contenedor D - Gimnasio'',
      ''Contenedor E - Estacionamiento'']"
  by (simp add: containers_data_def)

lemma set_insert_all:
  "snd ` set (insert_all ids k docs coll) = snd ` set coll \<union> set docs"
  by (induction docs arbitrary: k coll) (auto simp: insert_one_def)

lemma containers_init:
  "snd ` set (database.containers (snd (init_data env db)))
     \<subseteq> snd ` set (database.containers db) \<union> set (containers_data env)"
  by (simp add: init_data_def Let_def set_insert_all)

text \<open>Containers are written by \<^verbatim>\<open>init_data\<close> only, so every stored container has a sample name.\<close>

lemma reachable_container_names:
  "reachable lib db \<Longrightarrow> c \<in> snd ` set (database.containers db) \<Longrightarrow>
     Container.name c \<in> set (map Container.name (containers_data env'))"
proof (induction arbitrary: c rule: reachable.induct)
  case reachable_empty
  then show ?case by (simp add: empty_db_def)
next
  case (reachable_init db env)
  from reachable_init.prems containers_init [of env db]
  have "c \<in> snd ` set (database.containers db) \<or> c \<in> set (containers_data env)"
    by blast
  then show ?case
  proof
    assume "c \<in> snd ` set (database.containers db)"
    then show ?thesis by (rule reachable_init.IH)
  next
    assume "c \<in> set (containers_data env)"
    then have "Container.name c \<in> set (map Container.name (containers_data env))"
      by simp
    then show ?thesis
      by (simp only: seed_names)
  qed
qed (simp_all add: containers_unchanged)

text \<open>
  C7. On every store the API can reach, with an identifier parser that rejects the five
  sample container names (as \<^verbatim>\<open>bson.ObjectId\<close> does), the QR payload is resolved by looking it
  up as a container identifier first and, when that finds nothing, by container name; the
  scan is rejected with 404 "Contenedor no valido" exactly when both lookups fail, and the
  store is then unchanged.
\<close>

theorem scan_qr_container_resolution:
  assumes "reachable lib db"
    and "\<forall>n \<in> set (map Container.name (containers_data env')). ObjectId lib n = None"
  shows "resolve_container lib (qrCode request) db =
           (case (case ObjectId lib (qrCode request) of
                    None \<Rightarrow> None
                  | Some cid \<Rightarrow> find_one (by_id cid) (database.containers db)) of
              Some cdoc \<Rightarrow> Some cdoc
            | None \<Rightarrow> find_one (by_name (qrCode request)) (database.containers db))
       \<and> (fst (scan_qr lib env request db)
             = Inl (HTTPException 404 (Text (''Contenedor no v'' @ a_acute @ ''lido'')))
           \<longleftrightarrow> (case ObjectId lib (qrCode request) of
                  None \<Rightarrow> True
                | Some cid \<Rightarrow> find_one (by_id cid) (database.containers db) = None)
               \<and> find_one (by_name (qrCode request)) (database.containers db) = None)
       \<and> (fst (scan_qr lib env request db)
             = Inl (HTTPException 404 (Text (''Contenedor no v'' @ a_acute @ ''lido'')))
           \<longrightarrow> snd (scan_qr lib env request db) = db)"
proof -
  have rejected: "fst (scan_qr lib env request db)
         = Inl (HTTPException 404 (Text (''Contenedor no v'' @ a_acute @ ''lido'')))
       \<longleftrightarrow> resolve_container lib (qrCode request) db = None"
    by (auto simp: scan_qr_def Let_def split: option.splits sum.splits)
  have unchanged: "resolve_container lib (qrCode request) db = None \<longrightarrow>
        snd (scan_qr lib env request db) = db"
    by (simp add: scan_qr_def)
  have no_name: "find_one (by_name (qrCode request)) (database.containers db) = None"
    if parsed: "ObjectId lib (qrCode request) = Some cid" for cid
  proof -
    have "\<not> by_name (qrCode request) doc" if "doc \<in> set (database.containers db)" for doc
    proof
      assume "by_name (qrCode request) doc"
      then have "Container.name (snd doc) = qrCode request"
        by (simp add: by_name_def)
      moreover have "ObjectId lib (Container.name (snd doc)) = None"
        using reachable_container_names [OF assms(1) imageI [OF that]] assms(2) by blast
      ultimately show False
        using parsed by simp
    qed
    then show ?thesis
      by (simp add: find_one_None)
  qed
  have resolved: "resolve_container lib (qrCode request) db =
           (case (case ObjectId lib (qrCode request) of
                    None \<Rightarrow> None
                  | Some cid \<Rightarrow> find_one (by_id cid) (database.containers db)) of
              Some cdoc \<Rightarrow> Some cdoc
            | None \<Rightarrow> find_one (by_name (qrCode request)) (database.containers db))"
    using no_name by (simp add: resolve_container_def split: option.splits)
  have both: "resolve_container lib (qrCode request) db = None
       \<longleftrightarrow> (case ObjectId lib (qrCode request) of
                  None \<Rightarrow> True
                | Some cid \<Rightarrow> find_one (by_id cid) (database.containers db) = None)
               \<and> find_one (by_name (qrCode request)) (database.containers db) = None"
    using no_name by (simp add: resolve_container_def split: option.splits)
  show ?thesis
    unfolding rejected
    using resolved both unchanged by blast
qed

lemma seeded_lookups:
  "find_one (by_name ''abc'')
     (database.containers (snd (init_data (sample_env 100 0) empty_db))) = None"
  by (simp add: init_data_def empty_db_def count_documents_def containers_data_def
        insert_one_def find_one_def by_name_def Let_def)

lemma seed_names_rejected:
  "hex_ObjectId ''Contenedor A - Biblioteca'' = None"
  "hex_ObjectId (''Contenedor B - Cafeter'' @ [CHR 0xC3, CHR 0xAD] @ ''a'') = None"
  "hex_ObjectId ''Contenedor C - Laboratorios'' = None"
  "hex_ObjectId ''Contenedor D - Gimnasio'' = None"
  "hex_ObjectId ''Contenedor E - Estacionamiento'' = None"
  by code_simp+

theorem scan_qr_container_resolution_witness:
  "reachable sample_lib (snd (init_data (sample_env 100 0) empty_db))
   \<and> ObjectId sample_lib ''Contenedor A - Biblioteca'' = None
   \<and> ObjectId sample_lib (''Contenedor B - Cafeter'' @ [CHR 0xC3, CHR 0xAD] @ ''a'') = None
   \<and> ObjectId sample_lib ''Contenedor C - Laboratorios'' = None
   \<and> ObjectId sample_lib ''Contenedor D - Gimnasio'' = None
   \<and> ObjectId sample_lib ''Contenedor E - Estacionamiento'' = None
   \<and> resolve_container sample_lib ''Contenedor A - Biblioteca''
        (snd (init_data (sample_env 100 0) empty_db))
       = Some (inserted_id (sample_env 100 0) 0, hd (containers_data (sample_env 100 0)))
   \<and> ObjectId sample_lib ''abc'' = None
   \<and> find_one (by_name ''abc'')
        (database.containers (snd (init_data (sample_env 100 0) empty_db))) = None
   \<and> scan_qr sample_lib (sample_env 300 7)
        \<lparr>ScanQRRequest.userId = ''000000000000000000000001'', qrCode = ''abc''\<rparr>
        (snd (init_data (sample_env 100 0) empty_db))
       = (Inl (HTTPException 404 (Text (''Contenedor no v'' @ a_acute @ ''lido''))),
          snd (init_data (sample_env 100 0) empty_db))"
proof -
  let ?db = "snd (init_data (sample_env 100 0) empty_db) :: string database"
  let ?byname = "\<lparr>ScanQRRequest.userId = ''000000000000000000000001'',
                  qrCode = ''Contenedor A - Biblioteca''\<rparr>"
  let ?unknown = "\<lparr>ScanQRRequest.userId = ''000000000000000000000001'', qrCode = ''abc''\<rparr>"
  have c1: "reachable sample_lib ?db"
    by (intro reachable_init reachable_empty)
  have names: "ObjectId sample_lib ''Contenedor A - Biblioteca'' = None"
    "ObjectId sample_lib (''Contenedor B - Cafeter'' @ [CHR 0xC3, CHR 0xAD] @ ''a'') = None"
    "ObjectId sample_lib ''Contenedor C - Laboratorios'' = None"
    "ObjectId sample_lib ''Contenedor D - Gimnasio'' = None"
    "ObjectId sample_lib ''Contenedor E - Estacionamiento'' = None"
    by (simp_all only: sample_lib_simps seed_names_rejected)
  have h2: "\<forall>n \<in> set (map Container.name (containers_data (sample_env 100 0))).
              ObjectId sample_lib n = None"
    unfolding seed_names using names by simp
  note byname = scan_qr_container_resolution
    [OF c1 h2, where request = ?byname and env = "sample_env 300 7"]
  note unknown = scan_qr_container_resolution
    [OF c1 h2, where request = ?unknown and env = "sample_env 300 7"]
  have c2: "resolve_container sample_lib ''Contenedor A - Biblioteca'' ?db
       = Some (inserted_id (sample_env 100 0) 0, hd (containers_data (sample_env 100 0)))"
    using byname by (simp add: names run_init)
  have c3: "ObjectId sample_lib ''abc'' = None"
    by (simp add: sample_lib_simps sample_parse)
  have c4: "find_one (by_name ''abc'') (database.containers ?db) = None"
    by (rule seeded_lookups)
  have e: "fst (scan_qr sample_lib (sample_env 300 7) ?unknown ?db)
             = Inl (HTTPException 404 (Text (''Contenedor no v'' @ a_acute @ ''lido'')))"
    using unknown by (simp add: c3 c4)
  have s: "snd (scan_qr sample_lib (sample_env 300 7) ?unknown ?db) = ?db"
    using unknown e by blast
  have c5: "scan_qr sample_lib (sample_env 300 7) ?unknown ?db
       = (Inl (HTTPException 404 (Text (''Contenedor no v'' @ a_acute @ ''lido''))), ?db)"
    using e s by (simp add: prod_eq_iff)
  show ?thesis
    by (intro conjI c1 names c2 c3 c4 c5)
qed

section \<open>Listing rewards\<close>

text \<open>
  C10. A \<open>category\<close> value that is not one of the five tiers leaves the query empty: the
  response equals the response to a request without category, which is the listing of the
  rewards collection (the first 100 documents, the page size of the handler; the whole
  collection when it holds at most 100).
\<close>

theorem get_rewards_ignores_unknown_category:
  assumes "c \<notin> set cat_order"
  shows "get_rewards lib (Some c) db = get_rewards lib None db
       \<and> get_rewards lib None db =
           map (\<lambda>r. (str_oid lib (fst r), snd r)) (take 100 (database.rewards db))
       \<and> (length (database.rewards db) \<le> 100 \<longrightarrow>
            get_rewards lib (Some c) db =
              map (\<lambda>r. (str_oid lib (fst r), snd r)) (database.rewards db))"
proof -
  have "list_index xs c = None" if "c \<notin> set xs" for xs :: "string list"
    using that by (induction xs) auto
  with assms have "list_index cat_order c = None" by blast
  then have same: "rewards_query (Some c) = (rewards_query None :: 'a \<times> Reward \<Rightarrow> bool)"
    by (simp add: rewards_query_def)
  have none: "get_rewards lib None db =
           map (\<lambda>r. (str_oid lib (fst r), snd r)) (take 100 (database.rewards db))"
    by (simp add: get_rewards_def rewards_query_def find_to_list_def)
  show ?thesis
    using same none by (simp add: get_rewards_def)
qed

theorem get_rewards_ignores_unknown_category_witness:
  "''Gold'' \<notin> set cat_order
   \<and> length (database.rewards sample_db) \<le> 100
   \<and> get_rewards sample_lib (Some ''Gold'') sample_db = get_rewards sample_lib None sample_db
   \<and> map fst (get_rewards sample_lib (Some ''Gold'') sample_db)
       = [''000000000000000000000004'', ''000000000000000000000005'',
          ''000000000000000000000006'']
   \<and> map fst (get_rewards sample_lib (Some ''Oro'') sample_db)
       = [''000000000000000000000004'', ''000000000000000000000005'']"
proof -
  have c1: "''Gold'' \<notin> set cat_order"
    by (simp add: cat_order_def Clasico_def a_acute_def)
  have c2: "length (database.rewards sample_db) \<le> 100"
    by (simp add: sample_db_def)
  note used = get_rewards_ignores_unknown_category [OF c1, of sample_lib sample_db]
  have c3: "get_rewards sample_lib (Some ''Gold'') sample_db = get_rewards sample_lib None sample_db"
    using used by simp
  have c4: "map fst (get_rewards sample_lib (Some ''Gold'') sample_db)
       = [''000000000000000000000004'', ''000000000000000000000005'',
          ''000000000000000000000006'']"
    using used c2 by (simp add: sample_db_def sample_lib_simps)
  have c5: "map fst (get_rewards sample_lib (Some ''Oro'') sample_db)
       = [''000000000000000000000004'', ''000000000000000000000005'']"
    by (simp add: get_rewards_def rewards_query_def find_to_list_def cat_order_def Clasico_def
          a_acute_def sample_db_def sample_lib_simps)
  show ?thesis
    by (intro conjI c1 c2 c3 c4 c5)
qed

section \<open>Seeding\<close>

lemma length_insert_all:
  "length (insert_all ids k docs coll) = length coll + length docs"
  by (induction docs arbitrary: k coll) (simp_all add: insert_one_def)

lemma length_seed: "length (containers_data env) = 5" "length rewards_data = 13"
  by (simp_all add: containers_data_def rewards_data_def)

lemma init_data_containers_nonempty: "database.containers (snd (init_data env db)) \<noteq> []"
proof (cases "database.containers db = []")
  case True
  have "length (database.containers (snd (init_data env db))) = 5"
    using True by (simp add: init_data_def count_documents_def Let_def length_insert_all length_seed)
  then show ?thesis by auto
next
  case False
  then show ?thesis by (simp add: init_data_def count_documents_def Let_def)
qed

text \<open>
  C9. \<^verbatim>\<open>init_data\<close> on a store that already has a container changes nothing and answers
  "Datos ya inicializados"; a second call after a first one is always of this kind, so two
  calls leave the store as one call does. From a store without containers the two calls
  leave exactly the 5 sample containers and add the 13 sample rewards once.
\<close>

theorem init_data_idempotent:
  "(database.containers db \<noteq> [] \<longrightarrow>
      init_data env db =
        (\<lparr>InitResponse.message = ''Datos ya inicializados'',
          InitResponse.containers = None,
          InitResponse.rewards = None\<rparr>, db))
   \<and> init_data env' (snd (init_data env db)) =
        (\<lparr>InitResponse.message = ''Datos ya inicializados'',
          InitResponse.containers = None,
          InitResponse.rewards = None\<rparr>, snd (init_data env db))
   \<and> (database.containers db = [] \<longrightarrow>
        length (database.containers (snd (init_data env' (snd (init_data env db))))) = 5
        \<and> length (database.rewards (snd (init_data env' (snd (init_data env db)))))
            = length (database.rewards db) + 13)"
proof -
  have noop: "init_data e d =
        (\<lparr>InitResponse.message = ''Datos ya inicializados'',
          InitResponse.containers = None,
          InitResponse.rewards = None\<rparr>, d)" if "database.containers d \<noteq> []"
    for e :: "'a env" and d :: "'a database"
    using that by (simp add: init_data_def count_documents_def Let_def)
  have twice: "init_data env' (snd (init_data env db)) =
        (\<lparr>InitResponse.message = ''Datos ya inicializados'',
          InitResponse.containers = None,
          InitResponse.rewards = None\<rparr>, snd (init_data env db))"
    by (rule noop) (rule init_data_containers_nonempty)
  have first: "length (database.containers (snd (init_data env db))) = 5
        \<and> length (database.rewards (snd (init_data env db))) = length (database.rewards db) + 13"
    if "database.containers db = []"
    using that by (simp add: init_data_def count_documents_def Let_def length_insert_all length_seed)
  show ?thesis
    using noop [of db env] first by (simp add: twice)
qed

theorem init_data_idempotent_witness:
  "database.containers sample_db \<noteq> []
   \<and> init_data (sample_env 500 0) sample_db =
        (\<lparr>InitResponse.message = ''Datos ya inicializados'',
          InitResponse.containers = None,
          InitResponse.rewards = None\<rparr>, sample_db)
   \<and> database.containers (empty_db :: string database) = []
   \<and> length (database.containers
        (snd (init_data (sample_env 600 0) (snd (init_data (sample_env 500 0) empty_db))))) = 5
   \<and> length (database.rewards
        (snd (init_data (sample_env 600 0) (snd (init_data (sample_env 500 0) empty_db))))) = 13"
proof -
  have c1: "database.containers sample_db \<noteq> []"
    by (simp add: sample_db_def)
  have c3: "database.containers (empty_db :: string database) = []"
    by (simp add: empty_db_def)
  have r: "database.rewards (empty_db :: string database) = []"
    by (simp add: empty_db_def)
  note used1 = init_data_idempotent [of sample_db "sample_env 500 0" "sample_env 600 0"]
  note used2 = init_data_idempotent [of empty_db "sample_env 500 0" "sample_env 600 0"]
  have c2: "init_data (sample_env 500 0) sample_db =
        (\<lparr>InitResponse.message = ''Datos ya inicializados'',
          InitResponse.containers = None,
          InitResponse.rewards = None\<rparr>, sample_db)"
    using used1 c1 by blast
  have c4: "length (database.containers
        (snd (init_data (sample_env 600 0) (snd (init_data (sample_env 500 0) empty_db))))) = 5"
    using used2 c3 by blast
  have c5: "length (database.rewards
        (snd (init_data (sample_env 600 0) (snd (init_data (sample_env 500 0) empty_db))))) = 13"
  proof -
    from used2 c3 have
      "length (database.rewards
         (snd (init_data (sample_env 600 0) (snd (init_data (sample_env 500 0) empty_db)))))
       = length (database.rewards (empty_db :: string database)) + 13"
      by blast
    then show ?thesis unfolding r by simp
  qed
  show ?thesis
    by (intro conjI c1 c2 c3 c4 c5)
qed

end
